theory Spec2Isabelle
  imports Complex_Main "HOL-Library.Multiset"
begin

section \<open>Python values\<close>

text \<open>
  Python numbers are modelled as exact reals: the float arithmetic of the source is read as
  arithmetic on the reals, and only the explicit calls of \<^verbatim>\<open>round\<close> are kept, as rounding
  to the nearest multiple of \<open>10^-n\<close> with ties to the even neighbour. A binary float
  close to a tie may round to the other neighbour, and a sum of floats may absorb a small
  term; the properties below are stated so that they do not depend on either, or name the
  exact arithmetic they are about. The exceptions the modelled code can raise are values
  of \<open>py_error\<close>; a function that can raise returns \<open>py_error + 'a\<close>.

  The agent reads the vessel speed from the carrier table with \<^verbatim>\<open>iloc\<close>, which gives a
  numpy number, so the times computed from it are numpy numbers as well: dividing by a
  numpy zero gives \<^verbatim>\<open>nan\<close> or \<^verbatim>\<open>inf\<close> and a warning, never an exception. The distances
  of the routes are Python numbers, and dividing by a Python zero raises.
\<close>

datatype py_error = ZeroDivisionError | IndexError | ValueError | OverflowError

datatype level = Low | Medium | High | Critical

definition py_div :: "real \<Rightarrow> real \<Rightarrow> py_error + real" where
  "py_div a b = (if b = 0 then Inl ZeroDivisionError else Inr (a / b))"

definition py_round :: "nat \<Rightarrow> real \<Rightarrow> real" where
  "py_round n x =
     (let y = x * 10 ^ n; f = \<lfloor>y\<rfloor>; d = y - of_int f
      in of_int (if d < 1 / 2 then f
                 else if 1 / 2 < d then f + 1
                 else if even f then f else f + 1) / 10 ^ n)"

fun py_min :: "real list \<Rightarrow> py_error + real" where
  "py_min [] = Inl ValueError"
| "py_min [x] = Inr x"
| "py_min (x # y # ys) = (case py_min (y # ys) of Inl e \<Rightarrow> Inl e | Inr m \<Rightarrow> Inr (min x m))"

fun str_nat :: "nat \<Rightarrow> string" where
  "str_nat n =
     (if n < 10 then [char_of (48 + n)]
      else str_nat (n div 10) @ [char_of (48 + n mod 10)])"

declare str_nat.simps [simp del]

text \<open>
  A date is the number of its day, counted from 2024-01-01 as day 0. A \<^verbatim>\<open>datetime\<close> is a
  real number of hours since the midnight that starts day 0, so that
  \<^verbatim>\<open>departure + timedelta(hours=h)\<close> is \<open>departure + h\<close>, and
  \<^verbatim>\<open>strftime("%Y-%m-%d")\<close> is the number of the calendar day the instant falls in.
  \<^verbatim>\<open>datetime.strptime(departure_date, "%Y-%m-%d")\<close> is midnight of the given day.
  Python's \<^verbatim>\<open>datetime\<close> ends with the year 9999 (day 2913173), where the addition raises
  OverflowError, and \<^verbatim>\<open>timedelta\<close> rounds to the microsecond; neither is part of these
  two functions. The properties that depend on a date are stated for voyages that stay
  inside the calendar and, where the day itself is named, for instants a minute or more
  away from midnight (or at the departure midnight itself).
\<close>

definition strftime_day :: "real \<Rightarrow> int" where
  "strftime_day t = \<lfloor>t / 24\<rfloor>"

definition strptime_day :: "int \<Rightarrow> real" where
  "strptime_day d = 24 * of_int d"

section \<open>Geometry and segmentation (tools/route\_calculator.py)\<close>

record waypoint =
  waypoint_id :: string
  wp_type :: string
  latitude :: real
  longitude :: real
  port_name :: "string option"

definition radians :: "real \<Rightarrow> real" where
  "radians x = x * pi / 180"

definition haversine_distance :: "real \<Rightarrow> real \<Rightarrow> real \<Rightarrow> real \<Rightarrow> real" where
  "haversine_distance lat1 lon1 lat2 lon2 =
     (let la1 = radians lat1; lo1 = radians lon1; la2 = radians lat2; lo2 = radians lon2;
          dlat = la2 - la1; dlon = lo2 - lo1;
          a = (sin (dlat / 2))\<^sup>2 + cos la1 * cos la2 * (sin (dlon / 2))\<^sup>2;
          c = 2 * arcsin (sqrt a)
      in 6371 * c * 0.539957)"

record segment =
  segment_id :: string
  seg_waypoints :: "waypoint list"
  coordinates :: "(real \<times> real) list"
  distance_nm :: "real option"

text \<open>\<^verbatim>\<open>segment.get("distance_nm", 100)\<close>: a segment without the key counts 100 nm.\<close>

definition seg_distance :: "segment \<Rightarrow> real" where
  "seg_distance s = (case distance_nm s of None \<Rightarrow> 100 | Some d \<Rightarrow> d)"

record route =
  route_id :: string
  route_type :: string
  total_distance_nm :: real
  waypoint_count :: nat
  segments :: "segment list"
  waypoints :: "waypoint list"

text \<open>
  The reference tables, as parsed records. \<open>Waypoint_IDs\<close> is the cell after
  \<^verbatim>\<open>split(",")\<close> and \<^verbatim>\<open>strip()\<close> (the empty list for a missing cell); \<open>Distance_NM\<close> is
  \<open>None\<close> for a missing cell.
\<close>

record route_row =
  Route_ID :: string
  Origin_Port :: string
  Destination_Port :: string
  Route_Type :: string
  Distance_NM :: "real option"
  Waypoint_IDs :: "string list"

record carrier_row =
  CARRIER_ID :: string
  CARRIER_NAME :: string
  SERVICE_TYPE :: string
  AVG_SPEED_KNOTS :: real

record route_data =
  waypoints_tbl :: "waypoint list"
  routes_tbl :: "route_row list"
  carriers_tbl :: "carrier_row list"

text \<open>
  The loop over \<^verbatim>\<open>enumerate(waypoint_ids)\<close>: an id that is not in the table is skipped; a
  found waypoint is appended, and for \<open>i > 0\<close> the code reads \<^verbatim>\<open>route_waypoints[i-1]\<close>,
  which raises IndexError when fewer than \<open>i\<close> waypoints have been collected. (The distance
  summed in this loop is overwritten before it is used and is left out.)
\<close>

fun collect_waypoints ::
  "waypoint list \<Rightarrow> nat \<Rightarrow> string list \<Rightarrow> waypoint list \<Rightarrow> py_error + waypoint list" where
  "collect_waypoints tbl i [] acc = Inr acc"
| "collect_waypoints tbl i (wid # ids) acc =
     (case find (\<lambda>w. waypoint_id w = wid) tbl of
        None \<Rightarrow> collect_waypoints tbl (Suc i) ids acc
      | Some w \<Rightarrow>
          (let acc' = acc @ [w]
           in if 0 < i \<and> \<not> (i - 1 < length acc') then Inl IndexError
              else collect_waypoints tbl (Suc i) ids acc'))"

definition interpolated :: "waypoint \<Rightarrow> waypoint \<Rightarrow> nat \<Rightarrow> nat \<Rightarrow> waypoint" where
  "interpolated start finish num_points j =
     (let fraction = real j / real (num_points + 1)
      in \<lparr>waypoint_id = waypoint_id start @ ''_int_'' @ str_nat j,
          wp_type = ''Intermediate'',
          latitude = latitude start + fraction * (latitude finish - latitude start),
          longitude = longitude start + fraction * (longitude finish - longitude start),
          port_name = None\<rparr>)"

fun enrich_legs :: "nat \<Rightarrow> waypoint list \<Rightarrow> waypoint list" where
  "enrich_legs num_points (start # finish # rest) =
     map (interpolated start finish num_points) [1..<num_points + 1]
       @ finish # enrich_legs num_points (finish # rest)"
| "enrich_legs num_points rest = []"

definition enriched_waypoints :: "waypoint list \<Rightarrow> waypoint list" where
  "enriched_waypoints route_waypoints =
     (case route_waypoints of
        [] \<Rightarrow> []
      | w # rest \<Rightarrow> w # enrich_legs (max 1 (4 - length route_waypoints)) route_waypoints)"

fun path_distance :: "waypoint list \<Rightarrow> real" where
  "path_distance (start # finish # rest) =
     haversine_distance (latitude start) (longitude start) (latitude finish) (longitude finish)
       + path_distance (finish # rest)"
| "path_distance rest = 0"

text \<open>The slices \<^verbatim>\<open>route_waypoints[i:i+points_per_segment]\<close> for \<open>i = 0, p, 2p, ...\<close>.\<close>

function slices :: "nat \<Rightarrow> 'a list \<Rightarrow> 'a list list" where
  "slices p xs = (if p = 0 \<or> xs = [] then [] else take p xs # slices p (drop p xs))"
  by pat_completeness auto
termination
  by (relation "measure (\<lambda>(p, xs). length xs)") auto

declare slices.simps [simp del]

fun make_segments :: "string \<Rightarrow> segment list \<Rightarrow> waypoint list list \<Rightarrow> segment list" where
  "make_segments rid segs [] = segs"
| "make_segments rid segs (segment_waypoints # later) =
     (if segment_waypoints \<noteq> []
      then make_segments rid
             (segs @ [\<lparr>segment_id = rid @ ''_seg_'' @ str_nat (length segs + 1),
                        seg_waypoints = segment_waypoints,
                        coordinates = map (\<lambda>wp. (latitude wp, longitude wp)) segment_waypoints,
                        distance_nm = Some (path_distance segment_waypoints)\<rparr>]) later
      else make_segments rid segs later)"

text \<open>The body of the loop over the matching rows, after the waypoints are collected:
  \<open>None\<close> is the \<^verbatim>\<open>continue\<close> of a route with fewer than 2 waypoints.\<close>

definition route_details :: "route_row \<Rightarrow> waypoint list \<Rightarrow> route option" where
  "route_details row found =
     (if length found < 2 then None
      else
        (let route_waypoints = (if length found < 4 then enriched_waypoints found else found);
             points_per_segment = max 1 (length route_waypoints div 4);
             segs = make_segments (Route_ID row) [] (slices points_per_segment route_waypoints);
             total_distance = (case Distance_NM row of
                                 Some d \<Rightarrow> d
                               | None \<Rightarrow> sum_list (map seg_distance segs))
         in Some \<lparr>route_id = Route_ID row,
                  route_type = Route_Type row,
                  total_distance_nm = py_round 2 total_distance,
                  waypoint_count = length route_waypoints,
                  segments = segs,
                  waypoints = route_waypoints\<rparr>))"

fun routes_loop :: "waypoint list \<Rightarrow> route_row list \<Rightarrow> py_error + route list" where
  "routes_loop tbl [] = Inr []"
| "routes_loop tbl (row # rows) =
     (case collect_waypoints tbl 0 (Waypoint_IDs row) [] of
        Inl e \<Rightarrow> Inl e
      | Inr found \<Rightarrow>
          (case routes_loop tbl rows of
             Inl e \<Rightarrow> Inl e
           | Inr rest \<Rightarrow>
               Inr (case route_details row found of None \<Rightarrow> rest | Some r \<Rightarrow> r # rest)))"

text \<open>\<open>data = None\<close> is the empty dictionary \<^verbatim>\<open>load_route_data\<close> returns when loading fails.\<close>

definition matching_routes :: "route_data \<Rightarrow> string \<Rightarrow> string \<Rightarrow> route_row list" where
  "matching_routes d origin_port destination_port =
     filter (\<lambda>r. Origin_Port r = origin_port \<and> Destination_Port r = destination_port)
       (routes_tbl d)"

definition find_routes_between_ports ::
  "route_data option \<Rightarrow> string \<Rightarrow> string \<Rightarrow> py_error + route list" where
  "find_routes_between_ports data origin_port destination_port =
     (case data of
        None \<Rightarrow> Inr []
      | Some d \<Rightarrow> routes_loop (waypoints_tbl d) (matching_routes d origin_port destination_port))"

record carrier_info =
  carrier_id :: string
  carrier_name :: string
  avg_speed_knots :: real
  service_type :: string

definition get_carrier_info :: "route_data option \<Rightarrow> string \<Rightarrow> carrier_info option" where
  "get_carrier_info data cid =
     (case data of
        None \<Rightarrow> None
      | Some d \<Rightarrow>
          (case find (\<lambda>c. CARRIER_ID c = cid) (carriers_tbl d) of
             None \<Rightarrow> None
           | Some c \<Rightarrow> Some \<lparr>carrier_id = CARRIER_ID c, carrier_name = CARRIER_NAME c,
                             avg_speed_knots = AVG_SPEED_KNOTS c,
                             service_type = SERVICE_TYPE c\<rparr>))"

section \<open>Condition simulators\<close>

text \<open>
  The simulators draw from Python's global random source. Each draw is an explicit argument
  of the model: a record of the values the calls of \<^verbatim>\<open>random\<close> return, indexed by the
  position of the segment (and of the coordinate or event) it is drawn for. Fields of the
  reports that only carry descriptive text for the presentation layer are left out.
\<close>

subsection \<open>Weather (tools/weather\_forecast.py)\<close>

record weather_draw =
  condition_draw :: string
  wind_draw :: real
  wave_draw :: real
  visibility_draw :: real

record point_forecast =
  location :: "real \<times> real"
  condition :: string
  wind_speed_knots :: real
  wave_height_meters :: real
  visibility_km :: real
  warnings :: "string list"

record weather_report =
  wr_segment_id :: string
  forecast_date :: int
  points_analyzed :: nat
  forecasts :: "point_forecast list"
  average_wind_speed :: real
  average_wave_height :: real
  risk_level :: level

definition severity_factor :: "string \<Rightarrow> real" where
  "severity_factor c =
     (if c = ''Stormy'' then 2.5 else if c = ''Heavy Rain'' then 2.0
      else if c = ''Fog'' then 1.5 else 1.0)"

definition forecast_point :: "real \<times> real \<Rightarrow> weather_draw \<Rightarrow> point_forecast" where
  "forecast_point c d =
     (let sf = severity_factor (condition_draw d);
          wind = py_round 1 (wind_draw d * sf);
          wave = py_round 1 (wave_draw d * sf);
          vis = py_round 1 (visibility_draw d / sf)
      in \<lparr>location = c, condition = condition_draw d,
          wind_speed_knots = wind, wave_height_meters = wave, visibility_km = vis,
          warnings =
            (if 40 < wind then [''High wind warning''] else [])
            @ (if 5 < wave then [''High seas warning''] else [])
            @ (if vis < 2 then [''Low visibility warning''] else [])
            @ (if condition_draw d = ''Stormy''
               then [''Storm warning - consider route diversion''] else [])\<rparr>)"

definition get_weather_forecast ::
  "(real \<times> real) list \<Rightarrow> int \<Rightarrow> string \<Rightarrow> (nat \<Rightarrow> weather_draw) \<Rightarrow> weather_report" where
  "get_weather_forecast coords forecast_day sid rng =
     (let fs = map (\<lambda>(i, c). forecast_point c (rng i)) (enumerate 0 coords);
          avg_wind = (if fs \<noteq> [] then sum_list (map wind_speed_knots fs) / real (length fs)
                      else 0);
          avg_waves = (if fs \<noteq> [] then sum_list (map wave_height_meters fs) / real (length fs)
                       else 0);
          risk = (if 35 < avg_wind \<or> 4 < avg_waves then High
                  else if 25 < avg_wind \<or> 3 < avg_waves then Medium else Low)
      in \<lparr>wr_segment_id = sid, forecast_date = forecast_day,
          points_analyzed = length coords, forecasts = fs,
          average_wind_speed = py_round 1 avg_wind,
          average_wave_height = py_round 1 avg_waves,
          risk_level = risk\<rparr>)"

record weather_entry =
  weather :: weather_report
  w_estimated_arrival :: real
  w_hours_from_departure :: real

fun forecast_loop ::
  "real \<Rightarrow> real \<Rightarrow> (nat \<Rightarrow> nat \<Rightarrow> weather_draw) \<Rightarrow> nat \<Rightarrow> real \<Rightarrow> segment list
     \<Rightarrow> weather_entry list" where
  "forecast_loop departure v rng k cumulative_distance [] = []"
| "forecast_loop departure v rng k cumulative_distance (s # ss) =
     (let hours_to_segment = (if 0 < v then cumulative_distance / v else 0);
          segment_date = departure + hours_to_segment;
          forecast = get_weather_forecast (coordinates s) (strftime_day segment_date)
                       (segment_id s) (rng k)
      in \<lparr>weather = forecast, w_estimated_arrival = segment_date,
          w_hours_from_departure = py_round 1 hours_to_segment\<rparr>
         # forecast_loop departure v rng (Suc k) (cumulative_distance + seg_distance s) ss)"

definition get_extended_forecast ::
  "segment list \<Rightarrow> int \<Rightarrow> real \<Rightarrow> (nat \<Rightarrow> nat \<Rightarrow> weather_draw) \<Rightarrow> weather_entry list" where
  "get_extended_forecast route_segments departure_date vessel_speed_knots rng =
     forecast_loop (strptime_day departure_date) vessel_speed_knots rng 0 0 route_segments"

subsection \<open>Traffic (tools/maritime\_traffic.py)\<close>

record traffic_draw =
  vessel_delta :: int
  port_proximity_draw :: real
  speed_reduction_draw :: real

record traffic_summary_t =
  total_vessels_24h :: int
  congestion_level :: level
  traffic_density :: real
  average_speed_reduction_knots :: real

record navigation_impact_t =
  collision_risk :: level
  estimated_delay_minutes :: int

record traffic_report =
  tr_segment_id :: string
  analysis_date :: int
  coordinates_analyzed :: nat
  traffic_summary :: traffic_summary_t
  navigation_impact :: navigation_impact_t
  alerts :: "string list"

definition py_int :: "real \<Rightarrow> int" where
  "py_int x = (if 0 \<le> x then \<lfloor>x\<rfloor> else \<lceil>x\<rceil>)"

text \<open>
  The function returns the dictionary it builds with \<^verbatim>\<open>"alerts": []\<close>; the statements
  that follow that \<^verbatim>\<open>return\<close> in the source are never executed and have no counterpart here.
  \<open>speed_reduction_draw\<close> is the value of the one call of \<^verbatim>\<open>random.uniform\<close> made in the
  branch of the congestion level.
\<close>

definition analyze_maritime_traffic ::
  "string \<Rightarrow> (real \<times> real) list \<Rightarrow> int \<Rightarrow> traffic_draw \<Rightarrow> py_error + traffic_report" where
  "analyze_maritime_traffic sid coords analysis_day d =
     (if coords = [] then Inl ZeroDivisionError
      else
        (let lat_avg = sum_list (map fst coords) / real (length coords);
             lon_avg = sum_list (map snd coords) / real (length coords);
             is_major_lane = ((- 10 < lat_avg \<and> lat_avg < 10) \<or> (30 < lat_avg \<and> lat_avg < 40)
                              \<or> (- 35 < lat_avg \<and> lat_avg < - 25));
             base_traffic = (if is_major_lane then 50 else 20);
             total_vessels = base_traffic + vessel_delta d;
             congestion = (if 60 < total_vessels then High
                           else if 40 < total_vessels then Medium else Low);
             density = real_of_int total_vessels / real (length coords * 10);
             average_speed_reduction =
               (if congestion = High then speed_reduction_draw d
                else if congestion = Medium then speed_reduction_draw d else 0);
             collision =
               (if 8 < density then High
                else if 5 < density \<and> congestion = High then Medium else Low)
         in Inr \<lparr>tr_segment_id = sid, analysis_date = analysis_day,
                 coordinates_analyzed = length coords,
                 traffic_summary =
                   \<lparr>total_vessels_24h = total_vessels, congestion_level = congestion,
                    traffic_density = py_round 2 density,
                    average_speed_reduction_knots = py_round 1 average_speed_reduction\<rparr>,
                 navigation_impact =
                   \<lparr>collision_risk = collision,
                    estimated_delay_minutes = py_int (average_speed_reduction * 60 / 20)\<rparr>,
                 alerts = []\<rparr>))"

record traffic_entry =
  traffic :: traffic_report
  t_estimated_arrival :: real
  t_hours_from_departure :: real
  effective_speed_knots :: real

fun traffic_loop ::
  "real \<Rightarrow> real \<Rightarrow> (nat \<Rightarrow> traffic_draw) \<Rightarrow> nat \<Rightarrow> real \<Rightarrow> segment list
     \<Rightarrow> py_error + traffic_entry list" where
  "traffic_loop departure v rng k cumulative_hours [] = Inr []"
| "traffic_loop departure v rng k cumulative_hours (s # ss) =
     (let segment_date = departure + cumulative_hours
      in case analyze_maritime_traffic (segment_id s) (coordinates s)
                (strftime_day segment_date) (rng k) of
           Inl e \<Rightarrow> Inl e
         | Inr tr \<Rightarrow>
             (let speed_reduction = average_speed_reduction_knots (traffic_summary tr);
                  effective_speed = max (v - speed_reduction) 10;
                  segment_hours = seg_distance s / effective_speed
              in case traffic_loop departure v rng (Suc k) (cumulative_hours + segment_hours) ss of
                   Inl e \<Rightarrow> Inl e
                 | Inr rest \<Rightarrow>
                     Inr (\<lparr>traffic = tr, t_estimated_arrival = segment_date,
                           t_hours_from_departure = cumulative_hours,
                           effective_speed_knots = effective_speed\<rparr> # rest)))"

definition get_traffic_forecast ::
  "segment list \<Rightarrow> int \<Rightarrow> real \<Rightarrow> (nat \<Rightarrow> traffic_draw) \<Rightarrow> py_error + traffic_entry list" where
  "get_traffic_forecast route_segments departure_date vessel_speed_knots rng =
     traffic_loop (strptime_day departure_date) vessel_speed_knots rng 0 0 route_segments"

subsection \<open>Events (agents/news\_analyzer\_agent.py)\<close>

datatype event_type = Geopolitical | Natural | Maritime | Economic | Infrastructure

record news_draw =
  type_draw :: event_type
  headline_draw :: string
  days_ago_draw :: int
  severity_draw :: level
  duration_draw :: int
  id_draw :: nat
  lat_offset_draw :: real
  lon_offset_draw :: real

record impact_t =
  estimated_delay_hours :: real
  speed_reduction_knots :: real
  risk_increase_percent :: real
  route_viability :: string

record news_item =
  item_id :: string
  item_date :: int
  item_type :: event_type
  headline :: string
  severity :: level
  item_location :: "real \<times> real"
  affected_radius_nm :: nat
  duration_days :: int
  impact :: impact_t

definition generate_impact_assessment :: "level \<Rightarrow> event_type \<Rightarrow> impact_t" where
  "generate_impact_assessment sev ty =
     (let base = (case sev of
                    Low \<Rightarrow> (0.5, 0, 5)
                  | Medium \<Rightarrow> (2, 2, 15)
                  | High \<Rightarrow> (6, 5, 30)
                  | Critical \<Rightarrow> (24, 10, 50));
          delay_hours = fst base; speed_reduction = fst (snd base);
          risk_increase = snd (snd base)
      in \<lparr>estimated_delay_hours = (if ty = Infrastructure then delay_hours * 2 else delay_hours),
          speed_reduction_knots = (if ty = Natural then speed_reduction * 1.5 else speed_reduction),
          risk_increase_percent = (if ty = Geopolitical then risk_increase * 1.5
                                   else risk_increase),
          route_viability = (if sev = Low \<or> sev = Medium then ''Viable''
                             else ''Compromised'')\<rparr>)"

text \<open>One event per draw; the centre of the segment is computed inside the loop over the
  events, so an empty coordinate list raises as soon as one event is generated.\<close>

fun generate_news_for_segment ::
  "string \<Rightarrow> (real \<times> real) list \<Rightarrow> int \<Rightarrow> news_draw list \<Rightarrow> py_error + news_item list" where
  "generate_news_for_segment sid coords analysis_day [] = Inr []"
| "generate_news_for_segment sid coords analysis_day (d # ds) =
     (if coords = [] then Inl ZeroDivisionError
      else
        (let event_date = analysis_day - days_ago_draw d;
             center_lat = sum_list (map fst coords) / real (length coords);
             center_lon = sum_list (map snd coords) / real (length coords);
             sev = severity_draw d;
             impact_radius = (case sev of Low \<Rightarrow> 50 | Medium \<Rightarrow> 100 | High \<Rightarrow> 200
                              | Critical \<Rightarrow> 500);
             it = \<lparr>item_id = ''news_'' @ sid @ ''_'' @ str_nat (id_draw d),
                   item_date = event_date, item_type = type_draw d,
                   headline = headline_draw d, severity = sev,
                   item_location = (py_round 4 (center_lat + lat_offset_draw d),
                                    py_round 4 (center_lon + lon_offset_draw d)),
                   affected_radius_nm = impact_radius,
                   duration_days = duration_draw d,
                   impact = generate_impact_assessment sev (type_draw d)\<rparr>
         in case generate_news_for_segment sid coords analysis_day ds of
              Inl e \<Rightarrow> Inl e
            | Inr rest \<Rightarrow> Inr (it # rest)))"

record news_entry =
  item :: news_item
  vessel_eta :: real
  n_hours_from_departure :: real

record news_analysis_t =
  na_analysis_date :: int
  total_events :: nat
  critical_count :: nat
  high_count :: nat
  overall_risk_assessment :: level
  news_items :: "news_entry list"

text \<open>The speed is a numpy number: for a zero speed the quotient added to the hours is
  \<^verbatim>\<open>nan\<close> (distance 0) or \<^verbatim>\<open>inf\<close>, and the next \<^verbatim>\<open>timedelta(hours=...)\<close> raises ValueError
  or OverflowError.\<close>

fun news_loop ::
  "real \<Rightarrow> real \<Rightarrow> (nat \<Rightarrow> news_draw list) \<Rightarrow> nat \<Rightarrow> real \<Rightarrow> segment list
     \<Rightarrow> py_error + news_entry list" where
  "news_loop departure v rng k cumulative_hours [] = Inr []"
| "news_loop departure v rng k cumulative_hours (s # ss) =
     (let segment_date = departure + cumulative_hours
      in case generate_news_for_segment (segment_id s) (coordinates s)
                (strftime_day segment_date) (rng k) of
           Inl e \<Rightarrow> Inl e
         | Inr its \<Rightarrow>
             (let stamped = map (\<lambda>i. \<lparr>item = i, vessel_eta = segment_date,
                                        n_hours_from_departure = cumulative_hours\<rparr>) its
              in if v = 0
                 then (if ss = [] then Inr stamped
                       else if seg_distance s = 0 then Inl ValueError else Inl OverflowError)
                 else
                   (case news_loop departure v rng (Suc k)
                           (cumulative_hours + seg_distance s / v) ss of
                      Inl e \<Rightarrow> Inl e
                    | Inr rest \<Rightarrow> Inr (stamped @ rest))))"

definition analyze_route_news ::
  "segment list \<Rightarrow> int \<Rightarrow> real \<Rightarrow> (nat \<Rightarrow> news_draw list) \<Rightarrow> py_error + news_analysis_t" where
  "analyze_route_news route_segments departure_date vessel_speed_knots rng =
     (case news_loop (strptime_day departure_date) vessel_speed_knots rng 0 0 route_segments of
        Inl e \<Rightarrow> Inl e
      | Inr all_news \<Rightarrow>
          (let critical_events = filter (\<lambda>n. severity (item n) = Critical) all_news;
               high_events = filter (\<lambda>n. severity (item n) = High) all_news;
               overall = (if critical_events \<noteq> [] then Critical
                          else if 2 < length high_events then High
                          else if high_events \<noteq> [] then Medium else Low)
           in Inr \<lparr>na_analysis_date = departure_date, total_events = length all_news,
                   critical_count = length critical_events,
                   high_count = length high_events,
                   overall_risk_assessment = overall, news_items = all_news\<rparr>))"

section \<open>Route time and per-route analysis\<close>

record time_calc =
  base_time_hours :: real
  weather_delay_hours :: real
  traffic_delay_hours :: real
  total_time_hours :: real
  total_time_days :: real
  tc_effective_speed_knots :: "real option"

text \<open>
  \<open>weather_impact\<close> is \<open>None\<close> for a missing or empty dictionary and otherwise the value of
  \<^verbatim>\<open>weather_impact.get("average_wind_speed", 0)\<close>; \<open>traffic_impact\<close> is likewise the value
  of \<^verbatim>\<open>traffic_impact.get("congestion_level")\<close>. The division by the total time is a
  division by a numpy number: for a zero total time the effective speed is \<^verbatim>\<open>nan\<close>, here
  \<open>None\<close>, and nothing is raised. A zero speed raises when it is a Python number; the times
  a numpy zero would give (\<^verbatim>\<open>inf\<close> or \<^verbatim>\<open>nan\<close>) are not reals, and no property below is
  about a zero speed.
\<close>

definition calculate_route_time ::
  "route \<Rightarrow> real \<Rightarrow> real option \<Rightarrow> level option \<Rightarrow> py_error + time_calc" where
  "calculate_route_time r vessel_speed_knots weather_impact traffic_impact =
     (if vessel_speed_knots = 0 then Inl ZeroDivisionError
      else
        (let base_time = total_distance_nm r / vessel_speed_knots;
             weather_delay = (case weather_impact of
                                None \<Rightarrow> 0
                              | Some wind \<Rightarrow> base_time * (wind / 100));
             traffic_delay = (case traffic_impact of
                                None \<Rightarrow> 0
                              | Some c \<Rightarrow> base_time * (if c = High then 0.1 else 0.05));
             total_time = base_time + weather_delay + traffic_delay
         in Inr \<lparr>base_time_hours = py_round 2 base_time,
                 weather_delay_hours = py_round 2 weather_delay,
                 traffic_delay_hours = py_round 2 traffic_delay,
                 total_time_hours = py_round 2 total_time,
                 total_time_days = py_round 2 (total_time / 24),
                 tc_effective_speed_knots =
                   (if total_time = 0 then None
                    else Some (py_round 2 (total_distance_nm r / total_time)))\<rparr>))"

record route_analysis =
  a_route_id :: string
  a_route_type :: string
  a_distance_nm :: real
  a_segments :: nat
  time_calculation :: time_calc
  risk_segments :: nat
  overall_risk :: level
  forecast_summary :: "weather_entry list"
  congested_segments :: nat
  overall_congestion :: level
  traffic_forecast :: "traffic_entry list"
  news_analysis :: news_analysis_t

text \<open>
  \<^verbatim>\<open>_analyze_single_route\<close> in two parts: \<open>overall_metrics\<close> is the part from
  "Calculate overall metrics" on, applied to the three forecasts.
\<close>

definition overall_metrics ::
  "route \<Rightarrow> real \<Rightarrow> weather_entry list \<Rightarrow> traffic_entry list \<Rightarrow> news_analysis_t
     \<Rightarrow> py_error + route_analysis" where
  "overall_metrics r vessel_speed weather_fc traffic_fc na =
     (let total_weather_risk =
            length (filter (\<lambda>f. risk_level (weather f) = Medium \<or> risk_level (weather f) = High)
                      weather_fc);
          total_traffic_congestion =
            length (filter (\<lambda>t. congestion_level (traffic_summary (traffic t)) = Medium
                                \<or> congestion_level (traffic_summary (traffic t)) = High)
                      traffic_fc)
      in case calculate_route_time r vessel_speed
                (if 1 < total_weather_risk then Some 15 else None)
                (if 1 < total_traffic_congestion then Some High else None) of
           Inl e \<Rightarrow> Inl e
         | Inr tc \<Rightarrow>
             Inr \<lparr>a_route_id = route_id r, a_route_type = route_type r,
                  a_distance_nm = total_distance_nm r, a_segments = length (segments r),
                  time_calculation = tc,
                  risk_segments = total_weather_risk,
                  overall_risk = (if 2 < total_weather_risk then High
                                  else if 0 < total_weather_risk then Medium else Low),
                  forecast_summary = weather_fc,
                  congested_segments = total_traffic_congestion,
                  overall_congestion = (if 2 < total_traffic_congestion then High
                                        else if 0 < total_traffic_congestion then Medium
                                        else Low),
                  traffic_forecast = traffic_fc,
                  news_analysis = na\<rparr>)"

record route_rng =
  weather_rng :: "nat \<Rightarrow> nat \<Rightarrow> weather_draw"
  traffic_rng :: "nat \<Rightarrow> traffic_draw"
  news_rng :: "nat \<Rightarrow> news_draw list"

definition analyze_single_route ::
  "route \<Rightarrow> int \<Rightarrow> real \<Rightarrow> route_rng \<Rightarrow> py_error + route_analysis" where
  "analyze_single_route r departure_date vessel_speed rng =
     (let weather_fc = get_extended_forecast (segments r) departure_date vessel_speed
                         (weather_rng rng)
      in case get_traffic_forecast (segments r) departure_date vessel_speed (traffic_rng rng) of
           Inl e \<Rightarrow> Inl e
         | Inr traffic_fc \<Rightarrow>
             (case analyze_route_news (segments r) departure_date vessel_speed (news_rng rng) of
                Inl e \<Rightarrow> Inl e
              | Inr na \<Rightarrow> overall_metrics r vessel_speed weather_fc traffic_fc na))"

section \<open>Scoring and ranking (agents/forecast\_agent.py)\<close>

record scored_route =
  analysis :: route_analysis
  route_score :: real

text \<open>The body of the loop of \<^verbatim>\<open>_score_routes\<close> for one analysis; \<open>every\<close> is the whole
  list, over which the two minima are taken. The distances are Python numbers, and a zero
  minimum distance raises. The times are numpy numbers: for a zero minimum time the time
  penalty is \<^verbatim>\<open>nan\<close> or \<^verbatim>\<open>inf\<close>, the score \<^verbatim>\<open>nan\<close> or \<^verbatim>\<open>-inf\<close>, and
  \<^verbatim>\<open>max(0, score)\<close> returns 0.\<close>

definition score_of :: "route_analysis list \<Rightarrow> route_analysis \<Rightarrow> py_error + real" where
  "score_of every a =
     (case py_min (map a_distance_nm every) of
        Inl e \<Rightarrow> Inl e
      | Inr base_distance \<Rightarrow>
          if base_distance = 0 then Inl ZeroDivisionError
          else
            (case py_min (map (\<lambda>x. total_time_hours (time_calculation x)) every) of
               Inl e \<Rightarrow> Inl e
             | Inr base_time \<Rightarrow>
                 if base_time = 0 then Inr 0
                 else
                   (let distance_penalty = (a_distance_nm a - base_distance) / base_distance * 10;
                        time_penalty =
                          (total_time_hours (time_calculation a) - base_time) / base_time * 15;
                        score = 100 - distance_penalty - time_penalty;
                        score = (if overall_risk a = High then score - 20
                                 else if overall_risk a = Medium then score - 10 else score);
                        score = (if overall_congestion a = High then score - 15
                                 else if overall_congestion a = Medium then score - 7
                                 else score);
                        score = (if overall_risk_assessment (news_analysis a) = Critical
                                 then score - 30
                                 else if overall_risk_assessment (news_analysis a) = High
                                 then score - 20
                                 else if overall_risk_assessment (news_analysis a) = Medium
                                 then score - 10 else score)
                    in Inr (max 0 score))))"

fun score_loop :: "route_analysis list \<Rightarrow> route_analysis list \<Rightarrow> py_error + scored_route list"
  where
  "score_loop every [] = Inr []"
| "score_loop every (a # rest) =
     (case score_of every a of
        Inl e \<Rightarrow> Inl e
      | Inr sc \<Rightarrow>
          (case score_loop every rest of
             Inl e \<Rightarrow> Inl e
           | Inr scored \<Rightarrow> Inr (\<lparr>analysis = a, route_score = sc\<rparr> # scored)))"

text \<open>\<^verbatim>\<open>list.sort(key=..., reverse=True)\<close> is a stable sort into descending order of the
  key: elements with equal keys keep their order.\<close>

definition score_routes :: "route_analysis list \<Rightarrow> py_error + scored_route list" where
  "score_routes route_analyses =
     (case score_loop route_analyses route_analyses of
        Inl e \<Rightarrow> Inl e
      | Inr scored \<Rightarrow> Inr (sort_key (\<lambda>r. - route_score r) scored))"

section \<open>The request (agents/forecast\_agent.py, analyze\_routes)\<close>

text \<open>
  The result dictionary is either \<^verbatim>\<open>{"error": ..., "status": "failed"}\<close>, with one of the
  three messages the code builds, or the success dictionary, of which the ranked analyses
  are kept. Every exception raised inside the \<^verbatim>\<open>try\<close> block is caught and reported as a
  failure that carries it.
\<close>

datatype failure =
    CarrierNotFound string
  | NoRoutesFound string string
  | Raised py_error

datatype outcome = Failed failure | Success "scored_route list"

fun analyses_loop ::
  "int \<Rightarrow> real \<Rightarrow> (nat \<Rightarrow> route_rng) \<Rightarrow> nat \<Rightarrow> route list \<Rightarrow> py_error + route_analysis list"
  where
  "analyses_loop departure_date v rng k [] = Inr []"
| "analyses_loop departure_date v rng k (r # rs) =
     (case analyze_single_route r departure_date v (rng k) of
        Inl e \<Rightarrow> Inl e
      | Inr a \<Rightarrow>
          (case analyses_loop departure_date v rng (Suc k) rs of
             Inl e \<Rightarrow> Inl e
           | Inr rest \<Rightarrow> Inr (a # rest)))"

text \<open>The part of \<^verbatim>\<open>analyze_routes\<close> that follows the lookup of the routes.\<close>

definition evaluate_routes :: "route list \<Rightarrow> int \<Rightarrow> real \<Rightarrow> (nat \<Rightarrow> route_rng) \<Rightarrow> outcome" where
  "evaluate_routes routes departure_date vessel_speed rng =
     (case analyses_loop departure_date vessel_speed rng 0 routes of
        Inl e \<Rightarrow> Failed (Raised e)
      | Inr route_analyses \<Rightarrow>
          (case score_routes route_analyses of
             Inl e \<Rightarrow> Failed (Raised e)
           | Inr scored_routes \<Rightarrow> Success scored_routes))"

definition analyze_routes ::
  "route_data option \<Rightarrow> string \<Rightarrow> string \<Rightarrow> int \<Rightarrow> string \<Rightarrow> (nat \<Rightarrow> route_rng) \<Rightarrow> outcome"
  where
  "analyze_routes data origin_port destination_port departure_date cid rng =
     (case get_carrier_info data cid of
        None \<Rightarrow> Failed (CarrierNotFound cid)
      | Some ci \<Rightarrow>
          (case find_routes_between_ports data origin_port destination_port of
             Inl e \<Rightarrow> Failed (Raised e)
           | Inr routes \<Rightarrow>
               if routes = [] then Failed (NoRoutesFound origin_port destination_port)
               else evaluate_routes routes departure_date (avg_speed_knots ci) rng))"

section \<open>Notions used to state the properties\<close>

subsection \<open>The score as the specification words it\<close>

definition route_time :: "route_analysis \<Rightarrow> real" where
  "route_time a = total_time_hours (time_calculation a)"

definition spec_distance_penalty :: "route_analysis list \<Rightarrow> route_analysis \<Rightarrow> real" where
  "spec_distance_penalty every a =
     (a_distance_nm a - Min (a_distance_nm ` set every)) / Min (a_distance_nm ` set every) * 10"

definition spec_time_penalty :: "route_analysis list \<Rightarrow> route_analysis \<Rightarrow> real" where
  "spec_time_penalty every a =
     (route_time a - Min (route_time ` set every)) / Min (route_time ` set every) * 15"

definition spec_weather_penalty :: "route_analysis \<Rightarrow> real" where
  "spec_weather_penalty a = (case overall_risk a of High \<Rightarrow> 20 | Medium \<Rightarrow> 10 | _ \<Rightarrow> 0)"

definition spec_traffic_penalty :: "route_analysis \<Rightarrow> real" where
  "spec_traffic_penalty a = (case overall_congestion a of High \<Rightarrow> 15 | Medium \<Rightarrow> 7 | _ \<Rightarrow> 0)"

definition spec_event_penalty :: "route_analysis \<Rightarrow> real" where
  "spec_event_penalty a =
     (case overall_risk_assessment (news_analysis a) of
        Critical \<Rightarrow> 30 | High \<Rightarrow> 20 | Medium \<Rightarrow> 10 | Low \<Rightarrow> 0)"

definition spec_total_score :: "route_analysis list \<Rightarrow> route_analysis \<Rightarrow> real" where
  "spec_total_score every a =
     max 0 (100 - spec_distance_penalty every a - spec_time_penalty every a
              - spec_weather_penalty a - spec_traffic_penalty a - spec_event_penalty a)"

subsection \<open>Counts of flagged segments and elapsed hours\<close>

definition risk_count :: "weather_entry list \<Rightarrow> nat" where
  "risk_count wfc =
     length (filter (\<lambda>f. risk_level (weather f) = Medium \<or> risk_level (weather f) = High) wfc)"

definition congested_count :: "traffic_entry list \<Rightarrow> nat" where
  "congested_count tf =
     length (filter (\<lambda>t. congestion_level (traffic_summary (traffic t)) = Medium
                         \<or> congestion_level (traffic_summary (traffic t)) = High) tf)"





definition ranking_of :: "outcome \<Rightarrow> (string \<times> real) list option" where
  "ranking_of out =
     (case out of
        Failed f \<Rightarrow> None
      | Success ranked \<Rightarrow> Some (map (\<lambda>r. (a_route_id (analysis r), route_score r)) ranked))"

subsection \<open>The clock of the traffic walk in binary64\<close>

text \<open>
  \<open>binary64 x\<close> is the binary64 number nearest to \<open>x\<close>, ties to the even significand,
  for \<open>x\<close> in the normal range: with \<open>e\<close> the exponent of the last of the 53 bits of the
  significand, \<open>x\<close> is rounded to a multiple of \<open>2^e\<close>. The second walk is
  \<^verbatim>\<open>get_traffic_forecast\<close> with the subtraction, the division and the addition that
  produce its clock rounded in this way, as the interpreter computes them; it serves to
  exhibit an increment that the floating-point sum absorbs.
\<close>

definition binary64 :: "real \<Rightarrow> real" where
  "binary64 x =
     (if x = 0 then 0
      else (let e = \<lfloor>log 2 \<bar>x\<bar>\<rfloor> - 52 in py_round 0 (x / 2 powi e) * 2 powi e))"

fun traffic_loop_binary64 ::
  "real \<Rightarrow> real \<Rightarrow> (nat \<Rightarrow> traffic_draw) \<Rightarrow> nat \<Rightarrow> real \<Rightarrow> segment list
     \<Rightarrow> py_error + traffic_entry list" where
  "traffic_loop_binary64 departure v rng k cumulative_hours [] = Inr []"
| "traffic_loop_binary64 departure v rng k cumulative_hours (s # ss) =
     (let segment_date = departure + cumulative_hours
      in case analyze_maritime_traffic (segment_id s) (coordinates s)
                (strftime_day segment_date) (rng k) of
           Inl e \<Rightarrow> Inl e
         | Inr tr \<Rightarrow>
             (let speed_reduction = average_speed_reduction_knots (traffic_summary tr);
                  effective_speed = max (binary64 (v - speed_reduction)) 10;
                  segment_hours = binary64 (seg_distance s / effective_speed)
              in case traffic_loop_binary64 departure v rng (Suc k)
                        (binary64 (cumulative_hours + segment_hours)) ss of
                   Inl e \<Rightarrow> Inl e
                 | Inr rest \<Rightarrow>
                     Inr (\<lparr>traffic = tr, t_estimated_arrival = segment_date,
                           t_hours_from_departure = cumulative_hours,
                           effective_speed_knots = effective_speed\<rparr> # rest)))"

definition get_traffic_forecast_binary64 ::
  "segment list \<Rightarrow> int \<Rightarrow> real \<Rightarrow> (nat \<Rightarrow> traffic_draw) \<Rightarrow> py_error + traffic_entry list" where
  "get_traffic_forecast_binary64 route_segments departure_date vessel_speed_knots rng =
     traffic_loop_binary64 (strptime_day departure_date) vessel_speed_knots rng 0 0
       route_segments"

subsection \<open>Voyages inside the calendar\<close>


subsection \<open>Usable waypoints\<close>

text \<open>The waypoints of a route row that the waypoint table knows, in the order of the
  row.\<close>

definition usable_waypoints :: "waypoint list \<Rightarrow> route_row \<Rightarrow> waypoint list" where
  "usable_waypoints tbl row =
     List.map_filter (\<lambda>wid. find (\<lambda>w. waypoint_id w = wid) tbl) (Waypoint_IDs row)"

subsection \<open>Sample data\<close>

text \<open>
  Ports, carriers and routes of the sample tables that \<^verbatim>\<open>load_route_data\<close> writes, and
  random draws inside the ranges of the simulators' calls: a calm source (clear weather,
  ten vessels fewer than the base traffic, two events of Low severity per segment), and
  variations of it.
\<close>

definition new_york :: waypoint where
  "new_york = \<lparr>waypoint_id = ''WP_001'', wp_type = ''Port'', latitude = 40.7128,
                longitude = - 74.0060, port_name = Some ''New York''\<rparr>"

definition london :: waypoint where
  "london = \<lparr>waypoint_id = ''WP_003'', wp_type = ''Port'', latitude = 51.5074,
              longitude = - 0.1278, port_name = Some ''London''\<rparr>"

definition cape_town :: waypoint where
  "cape_town = \<lparr>waypoint_id = ''WP_004'', wp_type = ''Port'', latitude = - 33.9249,
                 longitude = 18.4241, port_name = Some ''Cape Town''\<rparr>"

definition ny_row :: "string \<Rightarrow> string \<Rightarrow> real option \<Rightarrow> string list \<Rightarrow> route_row" where
  "ny_row rid destination d ids =
     \<lparr>Route_ID = rid, Origin_Port = ''New York'', Destination_Port = destination,
      Route_Type = ''Transatlantic'', Distance_NM = d, Waypoint_IDs = ids\<rparr>"

definition sample_data :: "route_row list \<Rightarrow> route_data option" where
  "sample_data rows =
     Some \<lparr>waypoints_tbl = [new_york, london, cape_town], routes_tbl = rows,
           carriers_tbl =
             [\<lparr>CARRIER_ID = ''CR_0001'', CARRIER_NAME = ''Ocean Express'',
               SERVICE_TYPE = ''Container'', AVG_SPEED_KNOTS = 22\<rparr>,
              \<lparr>CARRIER_ID = ''CR_0003'', CARRIER_NAME = ''Sea Voyager'',
               SERVICE_TYPE = ''Tanker'', AVG_SPEED_KNOTS = 20\<rparr>]\<rparr>"

text \<open>What \<^verbatim>\<open>find_routes_between_ports\<close> builds from a row with two waypoints: the two
  interpolated waypoints are added, and each of the four waypoints is a segment.\<close>

definition two_point_route :: "route_row \<Rightarrow> waypoint \<Rightarrow> waypoint \<Rightarrow> route" where
  "two_point_route row a b =
     \<lparr>route_id = Route_ID row, route_type = Route_Type row,
      total_distance_nm = py_round 2 (case Distance_NM row of Some d \<Rightarrow> d | None \<Rightarrow> 0),
      waypoint_count = 4,
      segments = make_segments (Route_ID row) []
                   [[a], [interpolated a b 2 1], [interpolated a b 2 2], [b]],
      waypoints = [a, interpolated a b 2 1, interpolated a b 2 2, b]\<rparr>"

definition calm_weather :: weather_draw where
  "calm_weather = \<lparr>condition_draw = ''Clear'', wind_draw = 10, wave_draw = 1,
                    visibility_draw = 10\<rparr>"

definition gust :: weather_draw where
  "gust = \<lparr>condition_draw = ''Clear'', wind_draw = 28, wave_draw = 1, visibility_draw = 10\<rparr>"

definition calm_traffic :: traffic_draw where
  "calm_traffic = \<lparr>vessel_delta = - 10, port_proximity_draw = 1, speed_reduction_draw = 1\<rparr>"



definition calm_event :: news_draw where
  "calm_event = \<lparr>type_draw = Economic,
                  headline_draw = ''Fuel price surge affecting operations'',
                  days_ago_draw = 3, severity_draw = Low, duration_draw = 2,
                  id_draw = 1234, lat_offset_draw = 0, lon_offset_draw = 0\<rparr>"

definition calm_rng :: route_rng where
  "calm_rng = \<lparr>weather_rng = (\<lambda>k i. calm_weather), traffic_rng = (\<lambda>k. calm_traffic),
                news_rng = (\<lambda>k. [calm_event, calm_event])\<rparr>"

definition calm_rngs :: "nat \<Rightarrow> route_rng" where
  "calm_rngs k = calm_rng"

text \<open>One segment (the first) with 28 knots of wind; everything else calm.\<close>

definition windy_rng :: route_rng where
  "windy_rng = \<lparr>weather_rng = (\<lambda>k i. if k = 0 then gust else calm_weather),
                 traffic_rng = (\<lambda>k. calm_traffic),
                 news_rng = (\<lambda>k. [calm_event, calm_event])\<rparr>"

definition second_windy_rngs :: "nat \<Rightarrow> route_rng" where
  "second_windy_rngs k = (if k = 0 then calm_rng else windy_rng)"


text \<open>Segments given to the forecast tools directly: two legs of 470 nm along the
  equator, and a segment whose coordinate list is empty.\<close>

definition equator_leg :: "string \<Rightarrow> real \<Rightarrow> segment" where
  "equator_leg sid lon =
     \<lparr>segment_id = sid,
      seg_waypoints =
        [\<lparr>waypoint_id = sid @ ''_a'', wp_type = ''Intermediate'', latitude = 0,
          longitude = lon, port_name = None\<rparr>,
         \<lparr>waypoint_id = sid @ ''_b'', wp_type = ''Intermediate'', latitude = 0,
          longitude = lon + 7.83, port_name = None\<rparr>],
      coordinates = [(0, lon), (0, lon + 7.83)],
      distance_nm = Some 470\<rparr>"




text \<open>Three legs along the equator, the second of \<open>2^-60\<close> nm.\<close>

definition three_legs :: "segment list" where
  "three_legs =
     [equator_leg ''X_seg_1'' 0,
      \<lparr>segment_id = ''X_seg_2'', seg_waypoints = [], coordinates = [(0, 7.83)],
       distance_nm = Some (1 / 2 ^ 60)\<rparr>,
      equator_leg ''X_seg_3'' 7.83]"



section \<open>Properties\<close>

subsection \<open>Segmentation\<close>

lemma slices_concat: "0 < p \<Longrightarrow> concat (slices p xs) = xs"
proof (induction p xs rule: slices.induct)
  case (1 p xs)
  show ?case
  proof (cases "xs = []")
    case True
    then show ?thesis by (simp add: slices.simps)
  next
    case False
    with "1" show ?thesis by (subst slices.simps) simp
  qed
qed

lemma slices_bounds: "s \<in> set (slices p xs) \<Longrightarrow> s \<noteq> [] \<and> length s \<le> p"
proof (induction p xs rule: slices.induct)
  case (1 p xs)
  show ?case
  proof (cases "p = 0 \<or> xs = []")
    case True
    with "1.prems" show ?thesis by (simp add: slices.simps)
  next
    case False
    then have "slices p xs = take p xs # slices p (drop p xs)"
      by (subst slices.simps) simp
    with "1.prems" have "s = take p xs \<or> s \<in> set (slices p (drop p xs))" by simp
    then show ?thesis
    proof
      assume "s = take p xs"
      with False show ?thesis by simp
    next
      assume "s \<in> set (slices p (drop p xs))"
      with "1.IH" False show ?thesis by simp
    qed
  qed
qed

lemma slices_one: "slices (Suc 0) xs = map (\<lambda>x. [x]) xs"
  by (induction xs) (simp_all add: slices.simps)

lemma make_segments_waypoints:
  "map seg_waypoints (make_segments rid acc chunks)
     = map seg_waypoints acc @ filter (\<lambda>c. c \<noteq> []) chunks"
  by (induction chunks arbitrary: acc) simp_all

lemma make_segments_fields:
  assumes "\<forall>s\<in>set acc. coordinates s = map (\<lambda>wp. (latitude wp, longitude wp)) (seg_waypoints s)
                        \<and> distance_nm s = Some (path_distance (seg_waypoints s))"
  shows "\<forall>s\<in>set (make_segments rid acc chunks).
           coordinates s = map (\<lambda>wp. (latitude wp, longitude wp)) (seg_waypoints s)
         \<and> distance_nm s = Some (path_distance (seg_waypoints s))"
  using assms
proof (induction chunks arbitrary: acc)
  case Nil
  then show ?case by simp
next
  case (Cons c chunks)
  show ?case
  proof (cases "c = []")
    case True
    then show ?thesis using Cons.IH [OF Cons.prems] by simp
  next
    case False
    let ?new = "\<lparr>segment_id = rid @ ''_seg_'' @ str_nat (length acc + 1),
                 seg_waypoints = c,
                 coordinates = map (\<lambda>wp. (latitude wp, longitude wp)) c,
                 distance_nm = Some (path_distance c)\<rparr>"
    have "\<forall>s\<in>set (acc @ [?new]).
            coordinates s = map (\<lambda>wp. (latitude wp, longitude wp)) (seg_waypoints s)
          \<and> distance_nm s = Some (path_distance (seg_waypoints s))"
      using Cons.prems by simp
    from Cons.IH [OF this] False show ?thesis by simp
  qed
qed

lemma path_distance_single: "length ws = 1 \<Longrightarrow> path_distance ws = 0"
  by (cases ws) simp_all

lemma enrich_legs_length:
  "length (enrich_legs n ws) = (length ws - 1) * Suc n"
  by (induction n ws rule: enrich_legs.induct) simp_all

lemma enriched_length:
  assumes "2 \<le> length ws" and "length ws < 4"
  shows "4 \<le> length (enriched_waypoints ws)"
proof -
  have l: "length (enriched_waypoints ws)
             = Suc ((length ws - 1) * Suc (max 1 (4 - length ws)))"
    using assms(1) by (cases ws) (simp_all add: enriched_waypoints_def enrich_legs_length)
  from assms have "length ws = 2 \<or> length ws = 3" by arith
  then show ?thesis using l by auto
qed

lemma route_details_shape:
  assumes "route_details row found = Some r"
  shows "4 \<le> waypoint_count r"
    and "waypoint_count r = length (waypoints r)"
    and "map seg_waypoints (segments r) = slices (max 1 (waypoint_count r div 4)) (waypoints r)"
    and "\<forall>s\<in>set (segments r).
           coordinates s = map (\<lambda>wp. (latitude wp, longitude wp)) (seg_waypoints s)
         \<and> distance_nm s = Some (path_distance (seg_waypoints s))"
    and "route_id r = Route_ID row"
    and "2 \<le> length found"
proof -
  let ?ws = "if length found < 4 then enriched_waypoints found else found"
  let ?p = "max 1 (length ?ws div 4)"
  from assms have l2: "\<not> length found < 2"
    by (auto simp: route_details_def split: if_splits)
  then show "2 \<le> length found" by simp
  have l4: "4 \<le> length ?ws" using l2 enriched_length [of found] by auto
  from assms l2 have wp: "waypoints r = ?ws" and wc: "waypoint_count r = length ?ws"
    and sg: "segments r = make_segments (Route_ID row) [] (slices ?p ?ws)"
    and rid: "route_id r = Route_ID row"
    by (auto simp: route_details_def Let_def)
  show "4 \<le> waypoint_count r" using l4 wc by simp
  show "waypoint_count r = length (waypoints r)" using wp wc by simp
  show "route_id r = Route_ID row" by (rule rid)
  have "filter (\<lambda>c. c \<noteq> []) (slices ?p ?ws) = slices ?p ?ws"
    using slices_bounds [of _ ?p ?ws] by (simp add: filter_id_conv)
  then show "map seg_waypoints (segments r) = slices (max 1 (waypoint_count r div 4)) (waypoints r)"
    unfolding sg wp wc by (simp only: make_segments_waypoints list.map append_Nil)
  show "\<forall>s\<in>set (segments r).
           coordinates s = map (\<lambda>wp. (latitude wp, longitude wp)) (seg_waypoints s)
         \<and> distance_nm s = Some (path_distance (seg_waypoints s))"
    unfolding sg by (rule make_segments_fields) simp
qed

lemma slices_length: "0 < p \<Longrightarrow> length (slices p xs) = (length xs + p - 1) div p"
proof (induction p xs rule: slices.induct)
  case (1 p xs)
  show ?case
  proof (cases "xs = []")
    case True
    with "1.prems" show ?thesis by (simp add: slices.simps)
  next
    case False
    then have s: "slices p xs = take p xs # slices p (drop p xs)"
      using "1.prems" by (subst slices.simps) simp
    have ih: "length (slices p (drop p xs)) = (length (drop p xs) + p - 1) div p"
      using "1.IH" False "1.prems" by simp
    show ?thesis
    proof (cases "p \<le> length xs")
      case True
      then have "length xs + p - 1 = (length xs - p + p - 1) + p" using "1.prems" by simp
      then have "(length xs + p - 1) div p = (length xs - p + p - 1) div p + 1"
        using "1.prems" by (metis div_add_self2 less_numeral_extra(3))
      then show ?thesis using s ih by simp
    next
      case False
      with \<open>xs \<noteq> []\<close> have "p \<le> length xs + p - 1" "length xs + p - 1 < 2 * p"
        by (cases xs, simp, simp)+
      then have "(length xs + p - 1) div p = 1"
        by (metis One_nat_def Suc_1 div_nat_eqI mult.commute mult_Suc_right nat_mult_1_right)
      moreover have "drop p xs = []" using False by simp
      ultimately show ?thesis using s "1.prems" by (simp add: slices.simps)
    qed
  qed
qed

lemma slices_nth:
  "0 < p \<Longrightarrow> i < length (slices p xs) \<Longrightarrow> slices p xs ! i = take p (drop (i * p) xs)"
proof (induction p xs arbitrary: i rule: slices.induct)
  case (1 p xs)
  show ?case
  proof (cases "xs = []")
    case True
    with "1.prems" show ?thesis by (simp add: slices.simps)
  next
    case False
    then have s: "slices p xs = take p xs # slices p (drop p xs)"
      using "1.prems" by (subst slices.simps) simp
    show ?thesis
    proof (cases i)
      case 0
      then show ?thesis using s by simp
    next
      case (Suc j)
      with "1.prems" s have "j < length (slices p (drop p xs))" by simp
      with "1.IH" False "1.prems"(1)
      have "slices p (drop p xs) ! j = take p (drop (j * p) (drop p xs))" by simp
      then show ?thesis using s Suc by (simp add: add.commute)
    qed
  qed
qed

lemma slices_full:
  assumes "0 < p" and "Suc i < length (slices p xs)"
  shows "length (slices p xs ! i) = p"
proof -
  from assms have "Suc (Suc i) \<le> (length xs + p - 1) div p" by (simp add: slices_length)
  then have "Suc (Suc i) * p \<le> (length xs + p - 1) div p * p" by (rule mult_le_mono1)
  also have "\<dots> \<le> length xs + p - 1" by simp
  finally have "Suc i * p + p \<le> length xs + p - 1" by simp
  then have "Suc i * p \<le> length xs" using assms(1) by simp
  then have "p \<le> length xs - i * p" by simp
  moreover have "i < length (slices p xs)" using assms(2) by simp
  from slices_nth [OF assms(1) this]
  have "length (slices p xs ! i) = min (length xs - i * p) p" by simp
  ultimately show ?thesis by simp
qed

lemma make_segments_ids:
  assumes "\<forall>i<length acc. segment_id (acc ! i) = rid @ ''_seg_'' @ str_nat (Suc i)"
  shows "\<forall>i<length (make_segments rid acc chunks).
           segment_id (make_segments rid acc chunks ! i) = rid @ ''_seg_'' @ str_nat (Suc i)"
  using assms
proof (induction chunks arbitrary: acc)
  case Nil
  then show ?case by simp
next
  case (Cons c chunks)
  show ?case
  proof (cases "c = []")
    case True
    then show ?thesis using Cons.IH [OF Cons.prems] by simp
  next
    case False
    let ?new = "\<lparr>segment_id = rid @ ''_seg_'' @ str_nat (length acc + 1),
                 seg_waypoints = c,
                 coordinates = map (\<lambda>wp. (latitude wp, longitude wp)) c,
                 distance_nm = Some (path_distance c)\<rparr>"
    have "\<forall>i<length (acc @ [?new]).
            segment_id ((acc @ [?new]) ! i) = rid @ ''_seg_'' @ str_nat (Suc i)"
      using Cons.prems by (auto simp: nth_append less_Suc_eq)
    from Cons.IH [OF this] False show ?thesis by simp
  qed
qed

text \<open>
  Claim C6, as amended. Every route admitted to the candidate set has at least four
  waypoints after enrichment, and its segments are the consecutive slices of
  \<open>max(1, waypoint_count // 4)\<close> waypoints of the waypoint list, each with the coordinates
  of its waypoints and the length of the path through them as \<open>distance_nm\<close>: every segment
  but the last has exactly that many waypoints, and the last has between one and that many.
  So every segment but the last has at least two waypoints when the route has eight or
  more, and every segment is a single waypoint with \<open>distance_nm = 0\<close> when it has fewer.
\<close>

theorem segments_nonempty:
  assumes "route_details row found = Some r"
  shows "2 \<le> length found
       \<and> waypoints r = (if length found < 4 then enriched_waypoints found else found)
       \<and> waypoint_count r = length (waypoints r)
       \<and> 4 \<le> waypoint_count r
       \<and> length (segments r)
           = (waypoint_count r + max 1 (waypoint_count r div 4) - 1)
               div max 1 (waypoint_count r div 4)
       \<and> (\<forall>i<length (segments r).
             seg_waypoints (segments r ! i)
               = take (max 1 (waypoint_count r div 4))
                   (drop (i * max 1 (waypoint_count r div 4)) (waypoints r))
           \<and> 1 \<le> length (seg_waypoints (segments r ! i))
           \<and> length (seg_waypoints (segments r ! i)) \<le> max 1 (waypoint_count r div 4)
           \<and> segment_id (segments r ! i) = Route_ID row @ ''_seg_'' @ str_nat (Suc i)
           \<and> coordinates (segments r ! i)
               = map (\<lambda>wp. (latitude wp, longitude wp)) (seg_waypoints (segments r ! i))
           \<and> distance_nm (segments r ! i)
               = Some (path_distance (seg_waypoints (segments r ! i))))
       \<and> (\<forall>i. Suc i < length (segments r) \<longrightarrow>
             length (seg_waypoints (segments r ! i)) = max 1 (waypoint_count r div 4))
       \<and> (waypoint_count r < 8 \<longrightarrow>
            (\<forall>s\<in>set (segments r). length (seg_waypoints s) = 1 \<and> distance_nm s = Some 0))
       \<and> (8 \<le> waypoint_count r \<longrightarrow>
            (\<forall>i. Suc i < length (segments r) \<longrightarrow>
               2 \<le> length (seg_waypoints (segments r ! i))))"
proof -
  note sh = route_details_shape [OF assms]
  let ?p = "max 1 (waypoint_count r div 4)"
  let ?ws = "if length found < 4 then enriched_waypoints found else found"
  have p: "0 < ?p" by simp
  from assms sh(6) have wp: "waypoints r = ?ws"
    and sg: "segments r = make_segments (Route_ID row) []
                            (slices (max 1 (length ?ws div 4)) ?ws)"
    by (auto simp: route_details_def Let_def)
  have ln: "length (segments r) = length (slices ?p (waypoints r))"
    using arg_cong [OF sh(3), of length] by simp
  have nth: "seg_waypoints (segments r ! i) = slices ?p (waypoints r) ! i"
    if "i < length (segments r)" for i
    using arg_cong [OF sh(3), of "\<lambda>l. l ! i"] that by simp
  have 1: "length (segments r) = (waypoint_count r + ?p - 1) div ?p"
    unfolding ln sh(2) by (rule slices_length) simp
  have ids: "\<forall>i<length (segments r).
               segment_id (segments r ! i) = Route_ID row @ ''_seg_'' @ str_nat (Suc i)"
    unfolding sg by (rule make_segments_ids) simp
  have 2: "seg_waypoints (segments r ! i) = take ?p (drop (i * ?p) (waypoints r))
           \<and> 1 \<le> length (seg_waypoints (segments r ! i))
           \<and> length (seg_waypoints (segments r ! i)) \<le> ?p
           \<and> segment_id (segments r ! i) = Route_ID row @ ''_seg_'' @ str_nat (Suc i)
           \<and> coordinates (segments r ! i)
               = map (\<lambda>wp. (latitude wp, longitude wp)) (seg_waypoints (segments r ! i))
           \<and> distance_nm (segments r ! i)
               = Some (path_distance (seg_waypoints (segments r ! i)))"
    if "i < length (segments r)" for i
  proof -
    from that have i: "i < length (slices ?p (waypoints r))" by (simp only: ln)
    have a: "seg_waypoints (segments r ! i) = take ?p (drop (i * ?p) (waypoints r))"
      using nth [OF that] slices_nth [OF p i] by simp
    have m: "slices ?p (waypoints r) ! i \<in> set (slices ?p (waypoints r))"
      using i by simp
    from slices_bounds [OF m] nth [OF that]
    have b: "1 \<le> length (seg_waypoints (segments r ! i))"
      "length (seg_waypoints (segments r ! i)) \<le> ?p"
      by (simp_all add: Suc_le_eq)
    have s: "segments r ! i \<in> set (segments r)" using that by simp
    from sh(4) s have c: "coordinates (segments r ! i)
               = map (\<lambda>wp. (latitude wp, longitude wp)) (seg_waypoints (segments r ! i))"
      "distance_nm (segments r ! i) = Some (path_distance (seg_waypoints (segments r ! i)))"
      by simp_all
    from a b ids that c show ?thesis by simp
  qed
  have 3: "length (seg_waypoints (segments r ! i)) = ?p" if "Suc i < length (segments r)" for i
  proof -
    from that have "Suc i < length (slices ?p (waypoints r))" by (simp only: ln)
    from slices_full [OF p this] nth [of i] that show ?thesis by simp
  qed
  have 4: "length (seg_waypoints s) = 1 \<and> distance_nm s = Some 0"
    if "waypoint_count r < 8" "s \<in> set (segments r)" for s
  proof -
    from that(2) obtain i where i: "i < length (segments r)" and s: "s = segments r ! i"
      by (auto simp: in_set_conv_nth)
    from that(1) have "?p = 1" by simp
    from 2 [OF i] have "1 \<le> length (seg_waypoints s)" "length (seg_waypoints s) \<le> ?p"
      and d: "distance_nm s = Some (path_distance (seg_waypoints s))"
      unfolding s by blast+
    with \<open>?p = 1\<close> have l: "length (seg_waypoints s) = 1" by simp
    with d show ?thesis by (simp add: path_distance_single)
  qed
  have 5: "2 \<le> length (seg_waypoints (segments r ! i))"
    if "8 \<le> waypoint_count r" "Suc i < length (segments r)" for i
  proof -
    from that(1) have "2 \<le> waypoint_count r div 4" by simp
    then have "2 \<le> ?p" by simp
    with 3 [OF that(2)] show ?thesis by simp
  qed
  show ?thesis using sh(6) wp sh(2) sh(1) 1 2 3 4 5 by blast
qed

subsection \<open>The walks over the segments\<close>










subsection \<open>Scoring and ranking\<close>

lemma py_min_Min: "xs \<noteq> [] \<Longrightarrow> py_min xs = Inr (Min (set xs))"
proof (induction xs rule: py_min.induct)
  case 1
  then show ?case by simp
next
  case (2 x)
  show ?case by simp
next
  case (3 x y ys)
  then show ?case by (simp add: min.commute)
qed

lemma score_of_spec:
  assumes "every \<noteq> []"
    and "Min (a_distance_nm ` set every) \<noteq> 0"
    and "Min (route_time ` set every) \<noteq> 0"
  shows "score_of every a = Inr (spec_total_score every a)"
proof -
  have d: "py_min (map a_distance_nm every) = Inr (Min (a_distance_nm ` set every))"
    using assms(1) by (simp add: py_min_Min)
  have t: "py_min (map (\<lambda>x. total_time_hours (time_calculation x)) every)
             = Inr (Min (route_time ` set every))"
    using assms(1) py_min_Min [of "map (\<lambda>x. total_time_hours (time_calculation x)) every"]
    by (simp add: route_time_def image_def)
  show ?thesis
    unfolding score_of_def d t using assms(2,3)
    by (cases "overall_risk a"; cases "overall_congestion a";
        cases "overall_risk_assessment (news_analysis a)")
       (simp_all add: Let_def spec_total_score_def spec_distance_penalty_def
         spec_time_penalty_def spec_weather_penalty_def spec_traffic_penalty_def
         spec_event_penalty_def route_time_def)
qed

lemma score_loop_spec:
  assumes "\<forall>a\<in>set xs. score_of every a = Inr (f a)"
  shows "score_loop every xs = Inr (map (\<lambda>a. \<lparr>analysis = a, route_score = f a\<rparr>) xs)"
  using assms by (induction xs) simp_all

lemma score_loop_analysis:
  "score_loop every xs = Inr scored \<Longrightarrow> map analysis scored = xs"
  by (induction xs arbitrary: scored) (auto split: sum.splits)

lemma score_loop_score:
  "score_loop every xs = Inr scored \<Longrightarrow> r \<in> set scored \<Longrightarrow> score_of every (analysis r) = Inr (route_score r)"
  by (induction xs arbitrary: scored) (auto split: sum.splits)


lemma spec_total_score_bounds:
  assumes "a \<in> set every"
    and "\<forall>x\<in>set every. 0 < a_distance_nm x"
    and "\<forall>x\<in>set every. 0 < route_time x"
  shows "0 \<le> spec_total_score every a" and "spec_total_score every a \<le> 100"
proof -
  show "0 \<le> spec_total_score every a" by (simp add: spec_total_score_def)
  have fin: "finite (a_distance_nm ` set every)" "finite (route_time ` set every)" by simp_all
  have ne: "a_distance_nm ` set every \<noteq> {}" "route_time ` set every \<noteq> {}"
    using assms(1) by auto
  have md: "0 < Min (a_distance_nm ` set every)"
    using assms(2) fin(1) ne(1) by simp
  have mt: "0 < Min (route_time ` set every)"
    using assms(3) fin(2) ne(2) by simp
  have "Min (a_distance_nm ` set every) \<le> a_distance_nm a"
    using assms(1) by simp
  then have dp: "0 \<le> spec_distance_penalty every a"
    using md by (simp add: spec_distance_penalty_def)
  have "Min (route_time ` set every) \<le> route_time a"
    using assms(1) by simp
  then have tp: "0 \<le> spec_time_penalty every a"
    using mt by (simp add: spec_time_penalty_def)
  have wp: "0 \<le> spec_weather_penalty a"
    by (simp add: spec_weather_penalty_def split: level.split)
  have cp: "0 \<le> spec_traffic_penalty a"
    by (simp add: spec_traffic_penalty_def split: level.split)
  have ep: "0 \<le> spec_event_penalty a"
    by (simp add: spec_event_penalty_def split: level.split)
  show "spec_total_score every a \<le> 100"
    using dp tp wp cp ep by (simp add: spec_total_score_def)
qed

text \<open>
  Claim C1, as amended. For every non-empty candidate set in which every distance and every
  total time is positive, the scorer returns the candidates, each with
  \<open>total_score = max(0, 100 - distance_penalty - time_penalty - weather_penalty -
  traffic_penalty - event_penalty)\<close>, the penalties being those of the specification;
  every score lies between 0 and 100, and a candidate of minimum distance has distance
  penalty 0.
\<close>

theorem score_routes_formula:
  assumes "every \<noteq> []"
    and "\<forall>a\<in>set every. 0 < a_distance_nm a"
    and "\<forall>a\<in>set every. 0 < route_time a"
  shows "\<exists>ranked. score_routes every = Inr ranked
           \<and> mset (map analysis ranked) = mset every
           \<and> (\<forall>r\<in>set ranked.
                 route_score r = spec_total_score every (analysis r)
               \<and> 0 \<le> route_score r \<and> route_score r \<le> 100
               \<and> (a_distance_nm (analysis r) = Min (a_distance_nm ` set every)
                    \<longrightarrow> spec_distance_penalty every (analysis r) = 0))"
proof -
  let ?mk = "\<lambda>a. \<lparr>analysis = a, route_score = spec_total_score every a\<rparr>"
  let ?ranked = "sort_key (\<lambda>r. - route_score r) (map ?mk every)"
  have ne: "a_distance_nm ` set every \<noteq> {}" "route_time ` set every \<noteq> {}"
    using assms(1) by auto
  have "0 < Min (a_distance_nm ` set every)"
    using assms(2) ne(1) by simp
  then have md: "Min (a_distance_nm ` set every) \<noteq> 0" by simp
  have "0 < Min (route_time ` set every)"
    using assms(3) ne(2) by simp
  then have mt: "Min (route_time ` set every) \<noteq> 0" by simp
  have "score_loop every every = Inr (map ?mk every)"
    by (rule score_loop_spec) (simp add: score_of_spec [OF assms(1) md mt])
  then have res: "score_routes every = Inr ?ranked"
    by (simp add: score_routes_def)
  have perm: "mset (map analysis ?ranked) = mset every"
    by (simp add: image_mset.compositionality comp_def)
  have each: "route_score r = spec_total_score every (analysis r)
               \<and> 0 \<le> route_score r \<and> route_score r \<le> 100
               \<and> (a_distance_nm (analysis r) = Min (a_distance_nm ` set every)
                    \<longrightarrow> spec_distance_penalty every (analysis r) = 0)"
    if "r \<in> set ?ranked" for r
  proof -
    from that obtain a where a: "a \<in> set every" and r: "r = ?mk a" by auto
    show ?thesis
      using spec_total_score_bounds [OF a assms(2,3)] r
      by (simp add: spec_distance_penalty_def)
  qed
  show ?thesis using res perm each by blast
qed

lemma sorted_wrt_desc:
  "sorted (map (\<lambda>r. - f r) xs) \<Longrightarrow> sorted_wrt (\<lambda>x y. (f y :: real) \<le> f x) xs"
  by (induction xs) auto

text \<open>
  Claim C3, as amended. A ranking is in descending order of \<open>total_score\<close>, and routes with
  equal scores keep the order in which their analyses were passed to the scorer, which is
  the order of the rows of the route table (the sort is stable on the score alone; neither
  the distance nor the route id is compared).
\<close>

theorem ranking_order_stable:
  assumes "score_routes every = Inr ranked"
  shows "sorted_wrt (\<lambda>x y. route_score y \<le> route_score x) ranked
       \<and> (\<exists>scored. score_loop every every = Inr scored
             \<and> map analysis scored = every
             \<and> mset ranked = mset scored
             \<and> (\<forall>sc. filter (\<lambda>r. route_score r = sc) ranked
                      = filter (\<lambda>r. route_score r = sc) scored))"
proof -
  from assms obtain scored where
    sl: "score_loop every every = Inr scored" and
    rk: "ranked = sort_key (\<lambda>r. - route_score r) scored"
    by (auto simp: score_routes_def split: sum.splits)
  have "sorted (map (\<lambda>r. - route_score r) ranked)"
    unfolding rk by (rule sorted_sort_key)
  then have s: "sorted_wrt (\<lambda>x y. route_score y \<le> route_score x) ranked"
    by (rule sorted_wrt_desc)
  have st: "filter (\<lambda>r. route_score r = sc) ranked = filter (\<lambda>r. route_score r = sc) scored"
    for sc
    using sort_key_stable [of "\<lambda>r. - route_score r" "- sc" scored]
    by (simp add: rk)
  have ms: "mset ranked = mset scored" by (simp add: rk)
  show ?thesis using s st sl ms score_loop_analysis [OF sl] by blast
qed

subsection \<open>Route time\<close>

lemma calculate_route_time_fields:
  assumes "calculate_route_time r v wi ti = Inr tc"
  shows "v \<noteq> 0"
    and "base_time_hours tc = py_round 2 (total_distance_nm r / v)"
    and "weather_delay_hours tc
           = py_round 2 (case wi of None \<Rightarrow> 0 | Some w \<Rightarrow> total_distance_nm r / v * (w / 100))"
    and "traffic_delay_hours tc
           = py_round 2 (case ti of None \<Rightarrow> 0
                         | Some c \<Rightarrow> total_distance_nm r / v * (if c = High then 0.1 else 0.05))"
    and "total_time_hours tc
           = py_round 2 (total_distance_nm r / v
               + (case wi of None \<Rightarrow> 0 | Some w \<Rightarrow> total_distance_nm r / v * (w / 100))
               + (case ti of None \<Rightarrow> 0
                  | Some c \<Rightarrow> total_distance_nm r / v * (if c = High then 0.1 else 0.05)))"
  using assms by (auto simp: calculate_route_time_def Let_def split: if_splits)

lemma overall_metrics_fields:
  assumes "overall_metrics r v wfc tf na = Inr a"
  shows "a_route_id a = route_id r"
    and "a_distance_nm a = total_distance_nm r"
    and "risk_segments a = risk_count wfc"
    and "congested_segments a = congested_count tf"
    and "overall_risk a = (if 2 < risk_count wfc then High
                           else if 0 < risk_count wfc then Medium else Low)"
    and "overall_congestion a = (if 2 < congested_count tf then High
                                 else if 0 < congested_count tf then Medium else Low)"
    and "news_analysis a = na"
    and "calculate_route_time r v (if 1 < risk_count wfc then Some 15 else None)
           (if 1 < congested_count tf then Some High else None) = Inr (time_calculation a)"
  using assms
  by (auto simp: overall_metrics_def Let_def risk_count_def congested_count_def
      split: sum.splits)

lemma analyze_single_route_parts:
  assumes "analyze_single_route r day v rng = Inr a"
  shows "\<exists>tf na. get_traffic_forecast (segments r) day v (traffic_rng rng) = Inr tf
           \<and> analyze_route_news (segments r) day v (news_rng rng) = Inr na
           \<and> overall_metrics r v (get_extended_forecast (segments r) day v (weather_rng rng))
                tf na = Inr a"
  using assms by (auto simp: analyze_single_route_def Let_def split: sum.splits)


subsection \<open>A calm random source\<close>

lemma sum_list_const:
  "\<forall>x\<in>set xs. f x = (c::real) \<Longrightarrow> sum_list (map f xs) = real (length xs) * c"
  by (induction xs) (simp_all add: algebra_simps)

lemma map_enumerate_const:
  "(\<forall>i. rng i = dr) \<Longrightarrow>
   map (\<lambda>(i, c). forecast_point c (rng i)) (enumerate n coords)
     = map (\<lambda>c. forecast_point c dr) coords"
  by (induction coords arbitrary: n) simp_all

lemma uniform_weather_risk:
  assumes "\<forall>i. rng i = dr"
    and "wind_speed_knots (forecast_point (0, 0) dr) = w"
    and "wave_height_meters (forecast_point (0, 0) dr) = h"
    and "coords \<noteq> []"
  shows "risk_level (get_weather_forecast coords d sid rng)
           = (if 35 < w \<or> 4 < h then High else if 25 < w \<or> 3 < h then Medium else Low)"
proof -
  let ?fs = "map (\<lambda>c. forecast_point c dr) coords"
  have fs: "map (\<lambda>(i, c). forecast_point c (rng i)) (enumerate 0 coords) = ?fs"
    by (rule map_enumerate_const [OF assms(1)])
  have "\<forall>f\<in>set ?fs. wind_speed_knots f = w"
    using assms(2) by (auto simp: forecast_point_def Let_def)
  then have sw: "sum_list (map wind_speed_knots ?fs) = real (length ?fs) * w"
    by (rule sum_list_const)
  have "\<forall>f\<in>set ?fs. wave_height_meters f = h"
    using assms(3) by (auto simp: forecast_point_def Let_def)
  then have sh: "sum_list (map wave_height_meters ?fs) = real (length ?fs) * h"
    by (rule sum_list_const)
  have ne: "real (length ?fs) \<noteq> 0" using assms(4) by simp
  have aw: "sum_list (map wind_speed_knots ?fs) / real (length ?fs) = w"
    unfolding sw using ne by simp
  have ah: "sum_list (map wave_height_meters ?fs) / real (length ?fs) = h"
    unfolding sh using ne by simp
  show ?thesis
    unfolding get_weather_forecast_def fs Let_def aw ah using assms(4) by simp
qed

lemma empty_weather_low: "risk_level (get_weather_forecast [] d sid rng) = Low"
  by (simp add: get_weather_forecast_def Let_def)

lemma calm_weather_low:
  "\<forall>i. rng i = calm_weather \<Longrightarrow> risk_level (get_weather_forecast coords d sid rng) = Low"
proof (cases "coords = []")
  case True
  then show ?thesis by (simp add: empty_weather_low)
next
  case False
  assume r: "\<forall>i. rng i = calm_weather"
  have w: "wind_speed_knots (forecast_point (0, 0) calm_weather) = 10"
    by (simp add: forecast_point_def calm_weather_def severity_factor_def py_round_def Let_def)
  have h: "wave_height_meters (forecast_point (0, 0) calm_weather) = 1"
    by (simp add: forecast_point_def calm_weather_def severity_factor_def py_round_def Let_def)
  show ?thesis using uniform_weather_risk [OF r w h False] by simp
qed

lemma gust_medium:
  assumes "\<forall>i. rng i = gust" and "coords \<noteq> []"
  shows "risk_level (get_weather_forecast coords d sid rng) = Medium"
proof -
  have w: "wind_speed_knots (forecast_point (0, 0) gust) = 28"
    by (simp add: forecast_point_def gust_def severity_factor_def py_round_def Let_def)
  have h: "wave_height_meters (forecast_point (0, 0) gust) = 1"
    by (simp add: forecast_point_def gust_def severity_factor_def py_round_def Let_def)
  show ?thesis using uniform_weather_risk [OF assms(1) w h assms(2)] by simp
qed

lemma calm_forecast_loop:
  "\<forall>j\<ge>k. \<forall>i. rng j i = calm_weather \<Longrightarrow>
   risk_count (forecast_loop dep v rng k cum segs) = 0"
proof (induction segs arbitrary: k cum)
  case Nil
  then show ?case by (simp add: risk_count_def)
next
  case (Cons s ss)
  have "\<forall>j\<ge>Suc k. \<forall>i. rng j i = calm_weather" using Cons.prems by simp
  from Cons.IH [OF this] have "risk_count (forecast_loop dep v rng (Suc k)
                                 (cum + seg_distance s) ss) = 0" .
  moreover have "\<forall>i. rng k i = calm_weather" using Cons.prems by simp
  ultimately show ?case
    by (simp add: risk_count_def Let_def calm_weather_low)
qed

lemma calm_traffic_report:
  assumes "vessel_delta d = - 10" and "coords \<noteq> []"
  shows "\<exists>tr. analyze_maritime_traffic sid coords day d = Inr tr
            \<and> congestion_level (traffic_summary tr) = Low
            \<and> average_speed_reduction_knots (traffic_summary tr) = 0"
  using assms by (simp add: analyze_maritime_traffic_def Let_def py_round_def)

lemma calm_traffic_loop:
  assumes "\<forall>j. vessel_delta (rng j) = - 10" and "\<forall>s\<in>set segs. coordinates s \<noteq> []"
  shows "\<exists>tf. traffic_loop dep v rng k cum segs = Inr tf \<and> congested_count tf = 0"
  using assms(2)
proof (induction segs arbitrary: k cum)
  case Nil
  then show ?case by (simp add: congested_count_def)
next
  case (Cons s ss)
  from Cons.prems have c: "coordinates s \<noteq> []" and r: "\<forall>s\<in>set ss. coordinates s \<noteq> []"
    by simp_all
  from calm_traffic_report [OF _ c] assms(1) obtain tr where
    tr: "analyze_maritime_traffic (segment_id s) (coordinates s) (strftime_day (dep + cum))
           (rng k) = Inr tr"
    and lo: "congestion_level (traffic_summary tr) = Low"
    by blast
  from Cons.IH [OF r] obtain rest where
    rest: "traffic_loop dep v rng (Suc k)
             (cum + seg_distance s
                / max (v - average_speed_reduction_knots (traffic_summary tr)) 10) ss
           = Inr rest"
    and rc: "congested_count rest = 0"
    by blast
  show ?case using tr lo rest rc by (simp add: Let_def congested_count_def)
qed

lemma calm_events:
  assumes "\<forall>dr\<in>set ds. severity_draw dr = Low" and "coords \<noteq> []"
  shows "\<exists>its. generate_news_for_segment sid coords day ds = Inr its
             \<and> (\<forall>i\<in>set its. severity i = Low)"
  using assms(1)
proof (induction ds)
  case Nil
  then show ?case by simp
next
  case (Cons d ds)
  then obtain its where "generate_news_for_segment sid coords day ds = Inr its"
    and "\<forall>i\<in>set its. severity i = Low"
    by auto
  then show ?case using assms(2) Cons.prems by (simp add: Let_def)
qed

lemma calm_news_loop:
  assumes "\<forall>j. \<forall>dr\<in>set (rng j). severity_draw dr = Low"
    and "\<forall>s\<in>set segs. coordinates s \<noteq> []" and "v \<noteq> 0"
  shows "\<exists>items. news_loop dep v rng k cum segs = Inr items
               \<and> (\<forall>n\<in>set items. severity (item n) = Low)"
  using assms(2)
proof (induction segs arbitrary: k cum)
  case Nil
  then show ?case by simp
next
  case (Cons s ss)
  from Cons.prems have c: "coordinates s \<noteq> []" and r: "\<forall>s\<in>set ss. coordinates s \<noteq> []"
    by simp_all
  from calm_events [OF _ c] assms(1) obtain its where
    its: "generate_news_for_segment (segment_id s) (coordinates s) (strftime_day (dep + cum))
            (rng k) = Inr its"
    and lo: "\<forall>i\<in>set its. severity i = Low"
    by blast
  from Cons.IH [OF r] obtain rest where
    rest: "news_loop dep v rng (Suc k) (cum + seg_distance s / v) ss = Inr rest"
    and rl: "\<forall>n\<in>set rest. severity (item n) = Low"
    by blast
  show ?case using its lo rest rl assms(3) by (auto simp: Let_def)
qed

lemma calm_route_news:
  assumes "\<forall>j. \<forall>dr\<in>set (rng j). severity_draw dr = Low"
    and "\<forall>s\<in>set segs. coordinates s \<noteq> []" and "v \<noteq> 0"
  shows "\<exists>na. analyze_route_news segs day v rng = Inr na \<and> overall_risk_assessment na = Low"
proof -
  from calm_news_loop [OF assms] obtain items where
    "news_loop (strptime_day day) v rng 0 0 segs = Inr items"
    and "\<forall>n\<in>set items. severity (item n) = Low"
    by blast
  then show ?thesis
    by (simp add: analyze_route_news_def Let_def filter_empty_conv)
qed

lemma calculate_route_time_ok:
  assumes "v \<noteq> 0"
  shows "\<exists>tc. calculate_route_time r v wi ti = Inr tc"
  using assms by (simp add: calculate_route_time_def Let_def)

lemma quiet_analysis:
  assumes "\<forall>j. vessel_delta (traffic_rng rng j) = - 10"
    and "\<forall>j. \<forall>dr\<in>set (news_rng rng j). severity_draw dr = Low"
    and "\<forall>s\<in>set (segments r). coordinates s \<noteq> []"
    and "v \<noteq> 0"
  shows "\<exists>a. analyze_single_route r day v rng = Inr a
           \<and> a_route_id a = route_id r
           \<and> a_distance_nm a = total_distance_nm r
           \<and> overall_risk a
               = (let n = risk_count (get_extended_forecast (segments r) day v (weather_rng rng))
                  in if 2 < n then High else if 0 < n then Medium else Low)
           \<and> overall_congestion a = Low
           \<and> overall_risk_assessment (news_analysis a) = Low
           \<and> route_time a
               = (let n = risk_count (get_extended_forecast (segments r) day v (weather_rng rng))
                  in py_round 2 (total_distance_nm r / v
                        + (if 1 < n then total_distance_nm r / v * (15 / 100) else 0)))"
proof -
  let ?w = "get_extended_forecast (segments r) day v (weather_rng rng)"
  from calm_traffic_loop [OF assms(1,3), of "strptime_day day" v 0 0] obtain tf where
    tf: "get_traffic_forecast (segments r) day v (traffic_rng rng) = Inr tf"
    and tc0: "congested_count tf = 0"
    by (auto simp: get_traffic_forecast_def)
  from calm_route_news [OF assms(2,3,4), of day] obtain na where
    na: "analyze_route_news (segments r) day v (news_rng rng) = Inr na"
    and nl: "overall_risk_assessment na = Low"
    by blast
  have "\<exists>tc. calculate_route_time r v (if 1 < risk_count ?w then Some 15 else None) None
               = Inr tc"
    by (rule calculate_route_time_ok [OF assms(4)])
  then obtain tc where
    tc: "calculate_route_time r v (if 1 < risk_count ?w then Some 15 else None) None = Inr tc"
    by blast
  then obtain a where om: "overall_metrics r v ?w tf na = Inr a"
    using tc0 by (simp add: overall_metrics_def Let_def risk_count_def congested_count_def)
  note f = overall_metrics_fields [OF om]
  note t = calculate_route_time_fields [OF f(8)]
  have "analyze_single_route r day v rng = Inr a"
    using tf na om by (simp add: analyze_single_route_def Let_def)
  then show ?thesis
    using f(1,2,5,6,7) t(5) tc0 nl by (simp add: route_time_def Let_def)
qed

subsection \<open>The sample routes\<close>

lemma enriched_two:
  "enriched_waypoints [a, b] = [a, interpolated a b 2 1, interpolated a b 2 2, b]"
proof -
  have "[1..<3] = [1, 2::nat]" by (simp add: upt_rec)
  then show ?thesis by (simp add: enriched_waypoints_def numeral_2_eq_2)
qed

lemma route_details_two: "route_details row [a, b] = Some (two_point_route row a b)"
  by (simp add: route_details_def enriched_two Let_def slices_one
      two_point_route_def seg_distance_def split: option.split)

lemma two_point_coordinates:
  "\<forall>s\<in>set (segments (two_point_route row a b)). coordinates s \<noteq> []"
  by (simp add: two_point_route_def)

lemma collect_london:
  "collect_waypoints [new_york, london, cape_town] 0 [''WP_001'', ''WP_003''] []
     = Inr [new_york, london]"
  by (simp add: new_york_def london_def cape_town_def)

lemma collect_cape_town:
  "collect_waypoints [new_york, london, cape_town] 0 [''WP_001'', ''WP_004''] []
     = Inr [new_york, cape_town]"
  by (simp add: new_york_def london_def cape_town_def)

lemma ny_row_fields:
  "Route_ID (ny_row rid dst d ids) = rid"
  "Origin_Port (ny_row rid dst d ids) = ''New York''"
  "Destination_Port (ny_row rid dst d ids) = dst"
  "Route_Type (ny_row rid dst d ids) = ''Transatlantic''"
  "Distance_NM (ny_row rid dst d ids) = d"
  "Waypoint_IDs (ny_row rid dst d ids) = ids"
  by (simp_all add: ny_row_def)

lemma two_point_fields:
  "route_id (two_point_route (ny_row rid dst (Some d) ids) a b) = rid"
  "total_distance_nm (two_point_route (ny_row rid dst (Some d) ids) a b) = py_round 2 d"
  by (simp_all add: two_point_route_def ny_row_fields)

lemma find_two_london_routes:
  "find_routes_between_ports
     (sample_data [ny_row rid1 ''London'' d1 [''WP_001'', ''WP_003''],
                   ny_row rid2 ''London'' d2 [''WP_001'', ''WP_003'']])
     ''New York'' ''London''
   = Inr [two_point_route (ny_row rid1 ''London'' d1 [''WP_001'', ''WP_003'']) new_york london,
          two_point_route (ny_row rid2 ''London'' d2 [''WP_001'', ''WP_003'']) new_york london]"
  by (simp add: find_routes_between_ports_def sample_data_def matching_routes_def
      ny_row_fields collect_london route_details_two del: collect_waypoints.simps)

subsection \<open>Scenario A\<close>

lemma low_analysis:
  assumes "analyze_single_route r day v rng = Inr a"
    and "overall_risk a = Low" and "overall_congestion a = Low"
  shows "route_time a = py_round 2 (total_distance_nm r / v)"
    and "a_distance_nm a = total_distance_nm r"
proof -
  from analyze_single_route_parts [OF assms(1)] obtain tf na where
    om: "overall_metrics r v (get_extended_forecast (segments r) day v (weather_rng rng))
           tf na = Inr a"
    by blast
  note f = overall_metrics_fields [OF om]
  from f(5) assms(2)
  have r0: "risk_count (get_extended_forecast (segments r) day v (weather_rng rng)) = 0"
    by (simp split: if_splits)
  from f(6) assms(3) have c0: "congested_count tf = 0" by (simp split: if_splits)
  from f(8) have "calculate_route_time r v None None = Inr (time_calculation a)"
    by (simp add: r0 c0)
  from calculate_route_time_fields(5) [OF this]
  show "route_time a = py_round 2 (total_distance_nm r / v)" by (simp add: route_time_def)
  show "a_distance_nm a = total_distance_nm r" by (rule f(2))
qed

lemma score_routes_two:
  assumes "score_of [x, y] x = Inr sx" and "score_of [x, y] y = Inr sy"
  shows "score_routes [x, y]
           = Inr (if sy \<le> sx
                  then [\<lparr>analysis = x, route_score = sx\<rparr>, \<lparr>analysis = y, route_score = sy\<rparr>]
                  else [\<lparr>analysis = y, route_score = sy\<rparr>, \<lparr>analysis = x, route_score = sx\<rparr>])"
  using assms by (simp add: score_routes_def)

lemma calm_analysis:
  assumes "\<forall>s\<in>set (segments r). coordinates s \<noteq> []"
    and "v \<noteq> 0"
  shows "\<exists>a. analyze_single_route r day v calm_rng = Inr a
           \<and> a_route_id a = route_id r
           \<and> a_distance_nm a = total_distance_nm r
           \<and> overall_risk a = Low
           \<and> overall_congestion a = Low
           \<and> overall_risk_assessment (news_analysis a) = Low
           \<and> route_time a = py_round 2 (total_distance_nm r / v)"
proof -
  have t: "\<forall>j. vessel_delta (traffic_rng calm_rng j) = - 10"
    by (simp add: calm_rng_def calm_traffic_def)
  have n: "\<forall>j. \<forall>dr\<in>set (news_rng calm_rng j). severity_draw dr = Low"
    by (simp add: calm_rng_def calm_event_def)
  have w: "risk_count (get_extended_forecast (segments r) day v (weather_rng calm_rng)) = 0"
    unfolding get_extended_forecast_def
    by (rule calm_forecast_loop) (simp add: calm_rng_def)
  from quiet_analysis [OF t n assms, of day] show ?thesis by (simp add: w Let_def)
qed

lemma sea_voyager:
  "get_carrier_info (sample_data rows) ''CR_0003''
     = Some \<lparr>carrier_id = ''CR_0003'', carrier_name = ''Sea Voyager'', avg_speed_knots = 20,
             service_type = ''Tanker''\<rparr>"
  by (simp add: get_carrier_info_def sample_data_def)

lemma ocean_express:
  "get_carrier_info (sample_data rows) ''CR_0001''
     = Some \<lparr>carrier_id = ''CR_0001'', carrier_name = ''Ocean Express'', avg_speed_knots = 22,
             service_type = ''Container''\<rparr>"
  by (simp add: get_carrier_info_def sample_data_def)

lemma evaluate_two:
  assumes "analyze_single_route r1 day v (rngs 0) = Inr a1"
    and "analyze_single_route r2 day v (rngs 1) = Inr a2"
    and "score_routes [a1, a2] = Inr ranked"
  shows "evaluate_routes [r1, r2] day v rngs = Success ranked"
  using assms by (simp add: evaluate_routes_def)

lemma low_pair_scores:
  assumes "a_distance_nm a1 = 3000" and "total_time_hours (time_calculation a1) = 150"
    and "a_distance_nm a2 = 3300" and "total_time_hours (time_calculation a2) = 165"
    and "overall_risk a1 = Low" and "overall_congestion a1 = Low"
    and "overall_risk_assessment (news_analysis a1) = Low"
    and "overall_risk a2 = Low" and "overall_congestion a2 = Low"
    and "overall_risk_assessment (news_analysis a2) = Low"
  shows "score_routes [a1, a2]
           = Inr [\<lparr>analysis = a1, route_score = 100\<rparr>, \<lparr>analysis = a2, route_score = 97.5\<rparr>]
       \<and> score_routes [a2, a1]
           = Inr [\<lparr>analysis = a1, route_score = 100\<rparr>, \<lparr>analysis = a2, route_score = 97.5\<rparr>]"
proof -
  have s11: "score_of [a1, a2] a1 = Inr 100"
    by (simp add: score_of_def Let_def assms)
  have s12: "score_of [a1, a2] a2 = Inr 97.5"
    by (simp add: score_of_def Let_def assms)
  have s21: "score_of [a2, a1] a1 = Inr 100"
    by (simp add: score_of_def Let_def assms)
  have s22: "score_of [a2, a1] a2 = Inr 97.5"
    by (simp add: score_of_def Let_def assms)
  show ?thesis
    using score_routes_two [OF s11 s12] score_routes_two [OF s22 s21] by simp
qed

text \<open>
  Claim C7, as amended. For two candidates of 3000 nm and 3300 nm analysed at 20 knots with
  Low risk on every factor, the scorer yields 100 for the first and
  \<open>100 - 1 - 1.5 = 97.5\<close> for the second (distance penalty 1 and time penalty
  \<open>(165 - 150) / 150 * 15 = 1.5\<close>), and the first ranks first, whichever order they are
  passed in.
\<close>

theorem scenario_a_scores_ranking:
  assumes "analyze_single_route r1 day 20 rng1 = Inr a1"
    and "analyze_single_route r2 day 20 rng2 = Inr a2"
    and "total_distance_nm r1 = 3000" and "total_distance_nm r2 = 3300"
    and "overall_risk a1 = Low" and "overall_congestion a1 = Low"
    and "overall_risk_assessment (news_analysis a1) = Low"
    and "overall_risk a2 = Low" and "overall_congestion a2 = Low"
    and "overall_risk_assessment (news_analysis a2) = Low"
  shows "score_routes [a1, a2]
           = Inr [\<lparr>analysis = a1, route_score = 100\<rparr>, \<lparr>analysis = a2, route_score = 97.5\<rparr>]
       \<and> score_routes [a2, a1]
           = Inr [\<lparr>analysis = a1, route_score = 100\<rparr>, \<lparr>analysis = a2, route_score = 97.5\<rparr>]"
proof -
  have r1: "py_round 2 (3000 / 20) = 150" by (simp add: py_round_def Let_def)
  have r2: "py_round 2 (3300 / 20) = 165" by (simp add: py_round_def Let_def)
  have d1: "a_distance_nm a1 = 3000" and t1: "total_time_hours (time_calculation a1) = 150"
    using low_analysis [OF assms(1,5,6)] assms(3) r1 by (simp_all add: route_time_def)
  have d2: "a_distance_nm a2 = 3300" and t2: "total_time_hours (time_calculation a2) = 165"
    using low_analysis [OF assms(2,8,9)] assms(4) r2 by (simp_all add: route_time_def)
  show ?thesis by (rule low_pair_scores [OF d1 t1 d2 t2 assms(5-10)])
qed

text \<open>
  Scenario A as a whole request on the sample tables (carrier CR\_0003, 20 knots): the
  second candidate scores 97.5, not the 99.0 of the claim.
\<close>

theorem scenario_a_request_counterexample:
  "ranking_of
     (analyze_routes
        (sample_data [ny_row ''R_A'' ''London'' (Some 3000) [''WP_001'', ''WP_003''],
                      ny_row ''R_B'' ''London'' (Some 3300) [''WP_001'', ''WP_003'']])
        ''New York'' ''London'' 0 ''CR_0003'' calm_rngs)
   = Some [(''R_A'', 100), (''R_B'', 97.5)]"
proof -
  let ?rowA = "ny_row ''R_A'' ''London'' (Some 3000) [''WP_001'', ''WP_003'']"
  let ?rowB = "ny_row ''R_B'' ''London'' (Some 3300) [''WP_001'', ''WP_003'']"
  let ?rA = "two_point_route ?rowA new_york london"
  let ?rB = "two_point_route ?rowB new_york london"
  have dA: "total_distance_nm ?rA = 3000" and dB: "total_distance_nm ?rB = 3300"
    by (simp_all add: two_point_fields py_round_def Let_def)
  have r: "py_round 2 (3000 / 20) = 150" "py_round 2 (3300 / 20) = 165"
    by (simp_all add: py_round_def Let_def)
  from calm_analysis [OF two_point_coordinates, of 20 ?rowA new_york london 0] dA r
  obtain a1 where a1: "analyze_single_route ?rA 0 20 calm_rng = Inr a1"
    and i1: "a_route_id a1 = ''R_A''"
    and d1: "a_distance_nm a1 = 3000" and t1: "route_time a1 = 150"
    and l1: "overall_risk a1 = Low" "overall_congestion a1 = Low"
            "overall_risk_assessment (news_analysis a1) = Low"
    by (auto simp: two_point_fields)
  from calm_analysis [OF two_point_coordinates, of 20 ?rowB new_york london 0] dB r
  obtain a2 where a2: "analyze_single_route ?rB 0 20 calm_rng = Inr a2"
    and i2: "a_route_id a2 = ''R_B''"
    and d2: "a_distance_nm a2 = 3300" and t2: "route_time a2 = 165"
    and l2: "overall_risk a2 = Low" "overall_congestion a2 = Low"
            "overall_risk_assessment (news_analysis a2) = Low"
    by (auto simp: two_point_fields)
  have sc: "score_routes [a1, a2]
           = Inr [\<lparr>analysis = a1, route_score = 100\<rparr>, \<lparr>analysis = a2, route_score = 97.5\<rparr>]"
    by (rule conjunct1 [OF low_pair_scores [OF d1 t1 [unfolded route_time_def]
          d2 t2 [unfolded route_time_def] l1 l2]])
  have ev: "evaluate_routes [?rA, ?rB] 0 20 calm_rngs
              = Success [\<lparr>analysis = a1, route_score = 100\<rparr>,
                         \<lparr>analysis = a2, route_score = 97.5\<rparr>]"
    by (rule evaluate_two [OF _ _ sc]) (simp_all add: calm_rngs_def a1 a2)
  show ?thesis
    by (simp add: analyze_routes_def sea_voyager find_two_london_routes ev ranking_of_def i1 i2)
qed

subsection \<open>Analyses of the sample routes\<close>

lemma london_pair_outcome:
  assumes "analyze_single_route
             (two_point_route (ny_row rid1 ''London'' d1 [''WP_001'', ''WP_003'']) new_york london)
             day 20 (rngs 0) = Inr a1"
    and "analyze_single_route
             (two_point_route (ny_row rid2 ''London'' d2 [''WP_001'', ''WP_003'']) new_york london)
             day 20 (rngs 1) = Inr a2"
    and "score_routes [a1, a2] = Inr ranked"
  shows "analyze_routes
           (sample_data [ny_row rid1 ''London'' d1 [''WP_001'', ''WP_003''],
                         ny_row rid2 ''London'' d2 [''WP_001'', ''WP_003'']])
           ''New York'' ''London'' day ''CR_0003'' rngs
         = Success ranked"
  by (simp add: analyze_routes_def sea_voyager find_two_london_routes
      evaluate_two [OF assms])

lemma calm_london_analysis:
  assumes "v \<noteq> 0" and "py_round 2 d \<noteq> 0"
  shows "\<exists>a. analyze_single_route
               (two_point_route (ny_row rid ''London'' (Some d) ids) new_york london)
               day v calm_rng = Inr a
           \<and> a_route_id a = rid
           \<and> a_distance_nm a = py_round 2 d
           \<and> overall_risk a = Low
           \<and> overall_congestion a = Low
           \<and> overall_risk_assessment (news_analysis a) = Low
           \<and> route_time a = py_round 2 (py_round 2 d / v)"
  using calm_analysis [OF two_point_coordinates assms(1),
      of "ny_row rid ''London'' (Some d) ids" new_york london day] assms(2)
  by (simp add: two_point_fields)

lemma risk_count_Cons:
  "risk_count (e # es)
     = (if risk_level (weather e) = Medium \<or> risk_level (weather e) = High then 1 else 0)
       + risk_count es"
  by (simp add: risk_count_def)

lemma windy_risk_count:
  assumes "segs \<noteq> []" and "coordinates (hd segs) \<noteq> []"
  shows "risk_count (get_extended_forecast segs day v (weather_rng windy_rng)) = 1"
proof -
  from assms obtain s ss where segs: "segs = s # ss" and c: "coordinates s \<noteq> []"
    by (cases segs) auto
  have g: "\<forall>i. weather_rng windy_rng 0 i = gust" by (simp add: windy_rng_def)
  have rest: "\<forall>j\<ge>Suc 0. \<forall>i. weather_rng windy_rng j i = calm_weather"
    by (simp add: windy_rng_def)
  show ?thesis
    unfolding segs get_extended_forecast_def
    by (simp add: Let_def risk_count_Cons gust_medium [OF g c] calm_forecast_loop [OF rest])
qed

lemma windy_london_analysis:
  assumes "v \<noteq> 0" and "py_round 2 d \<noteq> 0"
  shows "\<exists>a. analyze_single_route
               (two_point_route (ny_row rid ''London'' (Some d) ids) new_york london)
               day v windy_rng = Inr a
           \<and> a_route_id a = rid
           \<and> a_distance_nm a = py_round 2 d
           \<and> overall_risk a = Medium
           \<and> overall_congestion a = Low
           \<and> overall_risk_assessment (news_analysis a) = Low
           \<and> route_time a = py_round 2 (py_round 2 d / v)"
proof -
  let ?r = "two_point_route (ny_row rid ''London'' (Some d) ids) new_york london"
  have t: "\<forall>j. vessel_delta (traffic_rng windy_rng j) = - 10"
    by (simp add: windy_rng_def calm_traffic_def)
  have n: "\<forall>j. \<forall>dr\<in>set (news_rng windy_rng j). severity_draw dr = Low"
    by (simp add: windy_rng_def calm_event_def)
  have w: "risk_count (get_extended_forecast (segments ?r) day v (weather_rng windy_rng)) = 1"
    by (rule windy_risk_count) (simp_all add: two_point_route_def)
  have d: "total_distance_nm ?r \<noteq> 0" using assms(2) by (simp add: two_point_fields)
  have co: "\<forall>s\<in>set (segments ?r). coordinates s \<noteq> []" by (rule two_point_coordinates)
  from quiet_analysis [OF t n co assms(1), of day]
  show ?thesis by (simp add: w Let_def two_point_fields)
qed

subsection \<open>Scorer: instances\<close>

lemma scenario_a_analyses:
  "\<exists>a1 a2.
     analyze_single_route
       (two_point_route (ny_row ''R_A'' ''London'' (Some 3000) [''WP_001'', ''WP_003''])
          new_york london) 0 20 calm_rng = Inr a1
   \<and> analyze_single_route
       (two_point_route (ny_row ''R_B'' ''London'' (Some 3300) [''WP_001'', ''WP_003''])
          new_york london) 0 20 calm_rng = Inr a2
   \<and> a_distance_nm a1 = 3000 \<and> route_time a1 = 150
   \<and> a_distance_nm a2 = 3300 \<and> route_time a2 = 165
   \<and> overall_risk a1 = Low \<and> overall_congestion a1 = Low
   \<and> overall_risk_assessment (news_analysis a1) = Low
   \<and> overall_risk a2 = Low \<and> overall_congestion a2 = Low
   \<and> overall_risk_assessment (news_analysis a2) = Low"
proof -
  have r: "py_round 2 3000 = 3000" "py_round 2 3300 = 3300"
    "py_round 2 150 = 150" "py_round 2 165 = 165"
    by (simp_all add: py_round_def Let_def)
  from calm_london_analysis [of 20 3000 "''R_A''" "[''WP_001'', ''WP_003'']" 0]
  obtain a1 where "analyze_single_route
       (two_point_route (ny_row ''R_A'' ''London'' (Some 3000) [''WP_001'', ''WP_003''])
          new_york london) 0 20 calm_rng = Inr a1"
    "a_distance_nm a1 = 3000" "route_time a1 = 150"
    "overall_risk a1 = Low" "overall_congestion a1 = Low"
    "overall_risk_assessment (news_analysis a1) = Low"
    by (auto simp: r)
  moreover
  from calm_london_analysis [of 20 3300 "''R_B''" "[''WP_001'', ''WP_003'']" 0]
  obtain a2 where "analyze_single_route
       (two_point_route (ny_row ''R_B'' ''London'' (Some 3300) [''WP_001'', ''WP_003''])
          new_york london) 0 20 calm_rng = Inr a2"
    "a_distance_nm a2 = 3300" "route_time a2 = 165"
    "overall_risk a2 = Low" "overall_congestion a2 = Low"
    "overall_risk_assessment (news_analysis a2) = Low"
    by (auto simp: r)
  ultimately show ?thesis by blast
qed

text \<open>
  The two Scenario-A routes of the sample tables, analysed under the calm source.
\<close>

theorem score_routes_formula_witness:
  "\<exists>a1 a2.
     analyze_single_route
       (two_point_route (ny_row ''R_A'' ''London'' (Some 3000) [''WP_001'', ''WP_003''])
          new_york london) 0 20 calm_rng = Inr a1
   \<and> analyze_single_route
       (two_point_route (ny_row ''R_B'' ''London'' (Some 3300) [''WP_001'', ''WP_003''])
          new_york london) 0 20 calm_rng = Inr a2
   \<and> (\<exists>ranked. score_routes [a1, a2] = Inr ranked
         \<and> mset (map analysis ranked) = mset [a1, a2]
         \<and> (\<forall>r\<in>set ranked.
               route_score r = spec_total_score [a1, a2] (analysis r)
             \<and> 0 \<le> route_score r \<and> route_score r \<le> 100
             \<and> (a_distance_nm (analysis r) = Min (a_distance_nm ` set [a1, a2])
                  \<longrightarrow> spec_distance_penalty [a1, a2] (analysis r) = 0)))"
proof -
  from scenario_a_analyses obtain a1 a2 where
    a: "analyze_single_route
       (two_point_route (ny_row ''R_A'' ''London'' (Some 3000) [''WP_001'', ''WP_003''])
          new_york london) 0 20 calm_rng = Inr a1"
      "analyze_single_route
       (two_point_route (ny_row ''R_B'' ''London'' (Some 3300) [''WP_001'', ''WP_003''])
          new_york london) 0 20 calm_rng = Inr a2"
    and v: "a_distance_nm a1 = 3000" "route_time a1 = 150"
      "a_distance_nm a2 = 3300" "route_time a2 = 165"
    by blast
  have h1: "[a1, a2] \<noteq> []" by simp
  have h2: "\<forall>a\<in>set [a1, a2]. 0 < a_distance_nm a" using v by simp
  have h3: "\<forall>a\<in>set [a1, a2]. 0 < route_time a" using v by simp
  from score_routes_formula [OF h1 h2 h3] a show ?thesis by blast
qed

lemma find_one_london_route:
  "find_routes_between_ports
     (sample_data [ny_row rid ''London'' d [''WP_001'', ''WP_003'']]) ''New York'' ''London''
   = Inr [two_point_route (ny_row rid ''London'' d [''WP_001'', ''WP_003'']) new_york london]"
  by (simp add: find_routes_between_ports_def sample_data_def matching_routes_def
      ny_row_fields collect_london route_details_two del: collect_waypoints.simps)

text \<open>
  The sample route R\_003 with its \<open>Distance_NM\<close> cell left empty: the distance is the sum
  of the distances of its four one-waypoint segments, 0. The analysis succeeds, and the
  scorer, dividing by the minimum distance, raises ZeroDivisionError where the claim
  promises a score; the request fails.
\<close>

theorem score_routes_zero_distance_counterexample:
  "(case analyses_loop 0 20 calm_rngs 0
          [two_point_route (ny_row ''R_003'' ''London'' None [''WP_001'', ''WP_003''])
             new_york london] of
      Inl e \<Rightarrow> False
    | Inr every \<Rightarrow>
        map a_distance_nm every = [0] \<and> score_routes every = Inl ZeroDivisionError)
   \<and> analyze_routes
        (sample_data [ny_row ''R_003'' ''London'' None [''WP_001'', ''WP_003'']])
        ''New York'' ''London'' 0 ''CR_0003'' calm_rngs
     = Failed (Raised ZeroDivisionError)"
proof -
  let ?r = "two_point_route (ny_row ''R_003'' ''London'' None [''WP_001'', ''WP_003''])
              new_york london"
  have v: "(20::real) \<noteq> 0" by simp
  have z: "total_distance_nm ?r = 0"
    by (simp add: two_point_route_def ny_row_fields py_round_def)
  have co: "\<forall>s\<in>set (segments ?r). coordinates s \<noteq> []" by (rule two_point_coordinates)
  from calm_analysis [OF co v, of 0]
  obtain a where a: "analyze_single_route ?r 0 20 calm_rng = Inr a"
    and d0: "a_distance_nm a = total_distance_nm ?r"
    by (elim exE conjE)
  have d: "a_distance_nm a = 0" using d0 z by simp
  have s: "score_routes [a] = Inl ZeroDivisionError"
    by (simp add: score_routes_def score_of_def d)
  have l: "analyses_loop 0 20 calm_rngs 0 [?r] = Inr [a]"
    using a by (simp add: calm_rngs_def)
  have 1: "(case analyses_loop 0 20 calm_rngs 0 [?r] of
              Inl e \<Rightarrow> False
            | Inr every \<Rightarrow>
                map a_distance_nm every = [0] \<and> score_routes every = Inl ZeroDivisionError)"
    by (simp only: l sum.case list.map d s simp_thms)
  have 2: "analyze_routes
        (sample_data [ny_row ''R_003'' ''London'' None [''WP_001'', ''WP_003'']])
        ''New York'' ''London'' 0 ''CR_0003'' calm_rngs
     = Failed (Raised ZeroDivisionError)"
    by (simp add: analyze_routes_def sea_voyager find_one_london_route evaluate_routes_def l s
        del: analyses_loop.simps)
  from 1 2 show ?thesis by (rule conjI)
qed

text \<open>
  The two routes taken from the sample tables and analysed under the calm source.
\<close>

theorem scenario_a_scores_ranking_witness:
  "\<exists>a1 a2.
     analyze_single_route
       (two_point_route (ny_row ''R_A'' ''London'' (Some 3000) [''WP_001'', ''WP_003''])
          new_york london) 0 20 calm_rng = Inr a1
   \<and> analyze_single_route
       (two_point_route (ny_row ''R_B'' ''London'' (Some 3300) [''WP_001'', ''WP_003''])
          new_york london) 0 20 calm_rng = Inr a2
   \<and> score_routes [a1, a2]
           = Inr [\<lparr>analysis = a1, route_score = 100\<rparr>, \<lparr>analysis = a2, route_score = 97.5\<rparr>]
   \<and> score_routes [a2, a1]
           = Inr [\<lparr>analysis = a1, route_score = 100\<rparr>, \<lparr>analysis = a2, route_score = 97.5\<rparr>]"
proof -
  from scenario_a_analyses obtain a1 a2 where
    a: "analyze_single_route
       (two_point_route (ny_row ''R_A'' ''London'' (Some 3000) [''WP_001'', ''WP_003''])
          new_york london) 0 20 calm_rng = Inr a1"
      "analyze_single_route
       (two_point_route (ny_row ''R_B'' ''London'' (Some 3300) [''WP_001'', ''WP_003''])
          new_york london) 0 20 calm_rng = Inr a2"
    and l: "overall_risk a1 = Low" "overall_congestion a1 = Low"
      "overall_risk_assessment (news_analysis a1) = Low"
      "overall_risk a2 = Low" "overall_congestion a2 = Low"
      "overall_risk_assessment (news_analysis a2) = Low"
    by blast
  have d: "total_distance_nm
             (two_point_route (ny_row ''R_A'' ''London'' (Some 3000) [''WP_001'', ''WP_003''])
                new_york london) = 3000"
     "total_distance_nm
             (two_point_route (ny_row ''R_B'' ''London'' (Some 3300) [''WP_001'', ''WP_003''])
                new_york london) = 3300"
    by (simp_all add: two_point_fields py_round_def Let_def)
  from scenario_a_scores_ranking [OF a d l] a show ?thesis by blast
qed

subsection \<open>Walks and segmentation: instances\<close>










text \<open>
  A route through nine waypoints: four segments of two waypoints and a last segment of one.
\<close>

theorem segments_nonempty_witness:
  "\<exists>r. route_details (ny_row ''R_009'' ''London'' (Some 9000) [])
          [new_york, london, cape_town, new_york, london, cape_town, new_york, london,
           cape_town] = Some r
       \<and> waypoint_count r = 9
       \<and> length (segments r) = 5
       \<and> length (seg_waypoints (segments r ! 0)) = 2
       \<and> length (seg_waypoints (segments r ! 1)) = 2
       \<and> length (seg_waypoints (segments r ! 2)) = 2
       \<and> length (seg_waypoints (segments r ! 3)) = 2
       \<and> seg_waypoints (segments r ! 4) = [cape_town]
       \<and> distance_nm (segments r ! 4) = Some 0"
proof -
  let ?ws = "[new_york, london, cape_town, new_york, london, cape_town, new_york, london,
              cape_town]"
  obtain r where r: "route_details (ny_row ''R_009'' ''London'' (Some 9000) []) ?ws = Some r"
    by (simp add: route_details_def Let_def)
  note t = segments_nonempty [OF r]
  from t have w: "waypoints r = ?ws" by simp
  from t have "waypoint_count r = length (waypoints r)" by blast
  with w have n: "waypoint_count r = 9" by simp
  then have p: "max 1 (waypoint_count r div 4) = 2" by simp
  from t have "length (segments r)
           = (waypoint_count r + max 1 (waypoint_count r div 4) - 1)
               div max 1 (waypoint_count r div 4)" by blast
  moreover have "max 1 ((9::nat) div 4) = 2" by simp
  moreover have "((9::nat) + 2 - 1) div 2 = 5" by simp
  ultimately have l: "length (segments r) = 5" by (simp only: n)
  from t have full: "Suc i < length (segments r) \<Longrightarrow>
             length (seg_waypoints (segments r ! i)) = max 1 (waypoint_count r div 4)" for i
    by blast
  have f0: "length (seg_waypoints (segments r ! 0)) = 2" using full [of 0] l p by simp
  have f1: "length (seg_waypoints (segments r ! 1)) = 2" using full [of 1] l p by simp
  have f2: "length (seg_waypoints (segments r ! 2)) = 2" using full [of 2] l p by simp
  have f3: "length (seg_waypoints (segments r ! 3)) = 2" using full [of 3] l p by simp
  from t have each: "i < length (segments r) \<Longrightarrow>
             seg_waypoints (segments r ! i)
               = take (max 1 (waypoint_count r div 4))
                   (drop (i * max 1 (waypoint_count r div 4)) (waypoints r))
           \<and> distance_nm (segments r ! i)
               = Some (path_distance (seg_waypoints (segments r ! i)))" for i
    by blast
  have "take 2 (drop (4 * 2) ?ws) = [cape_town]" by simp
  with each [of 4, unfolded p w] l
  have f4: "seg_waypoints (segments r ! 4) = [cape_town]"
    and d4: "distance_nm (segments r ! 4) = Some (path_distance (seg_waypoints (segments r ! 4)))"
    by simp_all
  have d: "distance_nm (segments r ! 4) = Some 0" unfolding d4 f4 by simp
  from r n l f0 f1 f2 f3 f4 d show ?thesis by blast
qed

text \<open>
  The sample route R\_003 (two waypoints, enriched to four): its four segments have one
  waypoint each and distance 0, against the claim that every segment has two.
\<close>

theorem single_waypoint_segments_counterexample:
  "map_option (\<lambda>r. map (\<lambda>s. (length (seg_waypoints s), distance_nm s)) (segments r))
     (route_details (ny_row ''R_003'' ''London'' (Some 3200) [''WP_001'', ''WP_003''])
        [new_york, london])
   = Some [(1, Some 0), (1, Some 0), (1, Some 0), (1, Some 0)]"
  by (simp add: route_details_two two_point_route_def)

subsection \<open>Congestion and wind along a route\<close>





subsection \<open>Route time: the fixed impacts\<close>





subsection \<open>Route time and simulator dates: instances\<close>



subsection \<open>Ties in the ranking\<close>

lemma equal_pair:
  "\<exists>a1 a2.
     analyze_single_route
       (two_point_route (ny_row ''R_002'' ''London'' (Some 3200) [''WP_001'', ''WP_003''])
          new_york london) 0 20 calm_rng = Inr a1
   \<and> analyze_single_route
       (two_point_route (ny_row ''R_001'' ''London'' (Some 3200) [''WP_001'', ''WP_003''])
          new_york london) 0 20 calm_rng = Inr a2
   \<and> a_route_id a1 = ''R_002'' \<and> a_route_id a2 = ''R_001''
   \<and> a_distance_nm a1 = 3200 \<and> a_distance_nm a2 = 3200
   \<and> score_routes [a1, a2]
       = Inr [\<lparr>analysis = a1, route_score = 100\<rparr>, \<lparr>analysis = a2, route_score = 100\<rparr>]"
proof -
  have p: "(20::real) \<noteq> 0" "py_round 2 3200 \<noteq> 0" by (simp_all add: py_round_def Let_def)
  have r: "py_round 2 3200 = 3200" "py_round 2 (py_round 2 3200 / 20) = 160"
    by (simp_all add: py_round_def Let_def)
  from calm_london_analysis [OF p, of "''R_002''" "[''WP_001'', ''WP_003'']" 0]
  obtain a1 where a1: "analyze_single_route
        (two_point_route (ny_row ''R_002'' ''London'' (Some 3200) [''WP_001'', ''WP_003''])
           new_york london) 0 20 calm_rng = Inr a1"
    and i1: "a_route_id a1 = ''R_002''"
    and d1: "a_distance_nm a1 = py_round 2 3200"
    and t1: "route_time a1 = py_round 2 (py_round 2 3200 / 20)"
    and l1: "overall_risk a1 = Low" "overall_congestion a1 = Low"
            "overall_risk_assessment (news_analysis a1) = Low"
    by blast
  from calm_london_analysis [OF p, of "''R_001''" "[''WP_001'', ''WP_003'']" 0]
  obtain a2 where a2: "analyze_single_route
        (two_point_route (ny_row ''R_001'' ''London'' (Some 3200) [''WP_001'', ''WP_003''])
           new_york london) 0 20 calm_rng = Inr a2"
    and i2: "a_route_id a2 = ''R_001''"
    and d2: "a_distance_nm a2 = py_round 2 3200"
    and t2: "route_time a2 = py_round 2 (py_round 2 3200 / 20)"
    and l2: "overall_risk a2 = Low" "overall_congestion a2 = Low"
            "overall_risk_assessment (news_analysis a2) = Low"
    by blast
  have v: "a_distance_nm a1 = 3200" "total_time_hours (time_calculation a1) = 160"
    "a_distance_nm a2 = 3200" "total_time_hours (time_calculation a2) = 160"
    using d1 t1 d2 t2 r by (simp_all add: route_time_def)
  have s1: "score_of [a1, a2] a1 = Inr 100" by (simp add: score_of_def Let_def v l1)
  have s2: "score_of [a1, a2] a2 = Inr 100" by (simp add: score_of_def Let_def v l2)
  have sc: "score_routes [a1, a2]
              = Inr [\<lparr>analysis = a1, route_score = 100\<rparr>, \<lparr>analysis = a2, route_score = 100\<rparr>]"
    using score_routes_two [OF s1 s2] by simp
  have "analyze_single_route
       (two_point_route (ny_row ''R_002'' ''London'' (Some 3200) [''WP_001'', ''WP_003''])
          new_york london) 0 20 calm_rng = Inr a1
   \<and> analyze_single_route
       (two_point_route (ny_row ''R_001'' ''London'' (Some 3200) [''WP_001'', ''WP_003''])
          new_york london) 0 20 calm_rng = Inr a2
   \<and> a_route_id a1 = ''R_002'' \<and> a_route_id a2 = ''R_001''
   \<and> a_distance_nm a1 = 3200 \<and> a_distance_nm a2 = 3200
   \<and> score_routes [a1, a2]
       = Inr [\<lparr>analysis = a1, route_score = 100\<rparr>, \<lparr>analysis = a2, route_score = 100\<rparr>]"
    using a1 a2 i1 i2 v(1,3) sc by (intro conjI) assumption+
  then show ?thesis by (intro exI)
qed

text \<open>
  Two sample routes of equal distance analysed under the calm source: both score 100 and
  keep their order.
\<close>

theorem ranking_order_stable_witness:
  "\<exists>a1 a2.
     analyze_single_route
       (two_point_route (ny_row ''R_002'' ''London'' (Some 3200) [''WP_001'', ''WP_003''])
          new_york london) 0 20 calm_rng = Inr a1
   \<and> analyze_single_route
       (two_point_route (ny_row ''R_001'' ''London'' (Some 3200) [''WP_001'', ''WP_003''])
          new_york london) 0 20 calm_rng = Inr a2
   \<and> score_routes [a1, a2]
       = Inr [\<lparr>analysis = a1, route_score = 100\<rparr>, \<lparr>analysis = a2, route_score = 100\<rparr>]
   \<and> sorted_wrt (\<lambda>x y. route_score y \<le> route_score x)
         [\<lparr>analysis = a1, route_score = 100\<rparr>, \<lparr>analysis = a2, route_score = 100\<rparr>]
   \<and> (\<exists>scored. score_loop [a1, a2] [a1, a2] = Inr scored
         \<and> map analysis scored = [a1, a2]
         \<and> mset [\<lparr>analysis = a1, route_score = 100\<rparr>, \<lparr>analysis = a2, route_score = 100\<rparr>]
             = mset scored
         \<and> (\<forall>sc. filter (\<lambda>r. route_score r = sc)
                    [\<lparr>analysis = a1, route_score = 100\<rparr>,
                     \<lparr>analysis = a2, route_score = 100\<rparr>]
                  = filter (\<lambda>r. route_score r = sc) scored))"
proof -
  from equal_pair obtain a1 a2 where
    a1: "analyze_single_route
       (two_point_route (ny_row ''R_002'' ''London'' (Some 3200) [''WP_001'', ''WP_003''])
          new_york london) 0 20 calm_rng = Inr a1"
    and a2: "analyze_single_route
       (two_point_route (ny_row ''R_001'' ''London'' (Some 3200) [''WP_001'', ''WP_003''])
          new_york london) 0 20 calm_rng = Inr a2"
    and sc: "score_routes [a1, a2]
       = Inr [\<lparr>analysis = a1, route_score = 100\<rparr>, \<lparr>analysis = a2, route_score = 100\<rparr>]"
    by (elim exE conjE)
  note w = ranking_order_stable [OF sc]
  have "analyze_single_route
       (two_point_route (ny_row ''R_002'' ''London'' (Some 3200) [''WP_001'', ''WP_003''])
          new_york london) 0 20 calm_rng = Inr a1
   \<and> analyze_single_route
       (two_point_route (ny_row ''R_001'' ''London'' (Some 3200) [''WP_001'', ''WP_003''])
          new_york london) 0 20 calm_rng = Inr a2
   \<and> score_routes [a1, a2]
       = Inr [\<lparr>analysis = a1, route_score = 100\<rparr>, \<lparr>analysis = a2, route_score = 100\<rparr>]
   \<and> sorted_wrt (\<lambda>x y. route_score y \<le> route_score x)
         [\<lparr>analysis = a1, route_score = 100\<rparr>, \<lparr>analysis = a2, route_score = 100\<rparr>]
   \<and> (\<exists>scored. score_loop [a1, a2] [a1, a2] = Inr scored
         \<and> map analysis scored = [a1, a2]
         \<and> mset [\<lparr>analysis = a1, route_score = 100\<rparr>, \<lparr>analysis = a2, route_score = 100\<rparr>]
             = mset scored
         \<and> (\<forall>sc. filter (\<lambda>r. route_score r = sc)
                    [\<lparr>analysis = a1, route_score = 100\<rparr>,
                     \<lparr>analysis = a2, route_score = 100\<rparr>]
                  = filter (\<lambda>r. route_score r = sc) scored))"
    using a1 a2 sc conjunct1 [OF w] conjunct2 [OF w] by (intro conjI) assumption+
  then show ?thesis by (intro exI)
qed

lemma equal_routes_ranking:
  "ranking_of
     (analyze_routes
        (sample_data [ny_row ''R_002'' ''London'' (Some 3200) [''WP_001'', ''WP_003''],
                      ny_row ''R_001'' ''London'' (Some 3200) [''WP_001'', ''WP_003'']])
        ''New York'' ''London'' 0 ''CR_0003'' calm_rngs)
   = Some [(''R_002'', 100), (''R_001'', 100)]"
proof -
  from equal_pair obtain a1 a2 where
    a1: "analyze_single_route
       (two_point_route (ny_row ''R_002'' ''London'' (Some 3200) [''WP_001'', ''WP_003''])
          new_york london) 0 20 calm_rng = Inr a1"
    and a2: "analyze_single_route
       (two_point_route (ny_row ''R_001'' ''London'' (Some 3200) [''WP_001'', ''WP_003''])
          new_york london) 0 20 calm_rng = Inr a2"
    and i1: "a_route_id a1 = ''R_002''" and i2: "a_route_id a2 = ''R_001''"
    and sc: "score_routes [a1, a2]
       = Inr [\<lparr>analysis = a1, route_score = 100\<rparr>, \<lparr>analysis = a2, route_score = 100\<rparr>]"
    by (elim exE conjE)
  have c: "calm_rngs 0 = calm_rng" "calm_rngs 1 = calm_rng" by (simp_all add: calm_rngs_def)
  show ?thesis
    unfolding london_pair_outcome [OF a1 [folded c(1)] a2 [folded c(2)] sc]
    by (simp add: ranking_of_def i1 i2)
qed

lemma longer_route_ranking:
  "ranking_of
     (analyze_routes
        (sample_data [ny_row ''R_001'' ''London'' (Some 4200) [''WP_001'', ''WP_003''],
                      ny_row ''R_002'' ''London'' (Some 3000) [''WP_001'', ''WP_003'']])
        ''New York'' ''London'' 0 ''CR_0003'' second_windy_rngs)
   = Some [(''R_001'', 90), (''R_002'', 90)]"
proof -
  have p1: "(20::real) \<noteq> 0" "py_round 2 4200 \<noteq> 0" by (simp_all add: py_round_def Let_def)
  have p2: "(20::real) \<noteq> 0" "py_round 2 3000 \<noteq> 0" by (simp_all add: py_round_def Let_def)
  have r: "py_round 2 4200 = 4200" "py_round 2 (py_round 2 4200 / 20) = 210"
    "py_round 2 3000 = 3000" "py_round 2 (py_round 2 3000 / 20) = 150"
    by (simp_all add: py_round_def Let_def)
  from calm_london_analysis [OF p1, of "''R_001''" "[''WP_001'', ''WP_003'']" 0]
  obtain a1 where a1: "analyze_single_route
        (two_point_route (ny_row ''R_001'' ''London'' (Some 4200) [''WP_001'', ''WP_003''])
           new_york london) 0 20 calm_rng = Inr a1"
    and i1: "a_route_id a1 = ''R_001''"
    and d1: "a_distance_nm a1 = py_round 2 4200"
    and t1: "route_time a1 = py_round 2 (py_round 2 4200 / 20)"
    and l1: "overall_risk a1 = Low" "overall_congestion a1 = Low"
            "overall_risk_assessment (news_analysis a1) = Low"
    by blast
  from windy_london_analysis [OF p2, of "''R_002''" "[''WP_001'', ''WP_003'']" 0]
  obtain a2 where a2: "analyze_single_route
        (two_point_route (ny_row ''R_002'' ''London'' (Some 3000) [''WP_001'', ''WP_003''])
           new_york london) 0 20 windy_rng = Inr a2"
    and i2: "a_route_id a2 = ''R_002''"
    and d2: "a_distance_nm a2 = py_round 2 3000"
    and t2: "route_time a2 = py_round 2 (py_round 2 3000 / 20)"
    and l2: "overall_risk a2 = Medium" "overall_congestion a2 = Low"
            "overall_risk_assessment (news_analysis a2) = Low"
    by blast
  have v: "a_distance_nm a1 = 4200" "total_time_hours (time_calculation a1) = 210"
    "a_distance_nm a2 = 3000" "total_time_hours (time_calculation a2) = 150"
    using d1 t1 d2 t2 r by (simp_all add: route_time_def)
  have s1: "score_of [a1, a2] a1 = Inr 90" by (simp add: score_of_def Let_def v l1)
  have s2: "score_of [a1, a2] a2 = Inr 90" by (simp add: score_of_def Let_def v l2)
  have sc: "score_routes [a1, a2]
              = Inr [\<lparr>analysis = a1, route_score = 90\<rparr>, \<lparr>analysis = a2, route_score = 90\<rparr>]"
    using score_routes_two [OF s1 s2] by simp
  have c: "second_windy_rngs 0 = calm_rng" "second_windy_rngs 1 = windy_rng"
    by (simp_all add: second_windy_rngs_def)
  show ?thesis
    unfolding london_pair_outcome [OF a1 [folded c(1)] a2 [folded c(2)] sc]
    by (simp add: ranking_of_def i1 i2)
qed

text \<open>
  Two requests on the sample tables. Routes R\_002 and R\_001 of equal distance in table
  order: both score 100 and R\_002 stays first. Routes of 4200 nm (calm) and 3000 nm (one
  windy segment): both score 90 and the longer route stays first.
\<close>

theorem ranking_tie_break_counterexample:
  "ranking_of
     (analyze_routes
        (sample_data [ny_row ''R_002'' ''London'' (Some 3200) [''WP_001'', ''WP_003''],
                      ny_row ''R_001'' ''London'' (Some 3200) [''WP_001'', ''WP_003'']])
        ''New York'' ''London'' 0 ''CR_0003'' calm_rngs)
   = Some [(''R_002'', 100), (''R_001'', 100)]
   \<and> ranking_of
     (analyze_routes
        (sample_data [ny_row ''R_001'' ''London'' (Some 4200) [''WP_001'', ''WP_003''],
                      ny_row ''R_002'' ''London'' (Some 3000) [''WP_001'', ''WP_003'']])
        ''New York'' ''London'' 0 ''CR_0003'' second_windy_rngs)
   = Some [(''R_001'', 90), (''R_002'', 90)]"
  using equal_routes_ranking longer_route_ranking by (rule conjI)

subsection \<open>Simulator failures\<close>














subsection \<open>Routes without usable waypoints\<close>

lemma collect_waypoints_usable:
  "collect_waypoints tbl i ids acc = Inr found \<Longrightarrow>
   found = acc @ List.map_filter (\<lambda>wid. find (\<lambda>w. waypoint_id w = wid) tbl) ids"
proof (induction ids arbitrary: i acc)
  case Nil
  then show ?case by (simp add: List.map_filter_simps)
next
  case (Cons wid ids)
  show ?case
  proof (cases "find (\<lambda>w. waypoint_id w = wid) tbl")
    case None
    with Cons.prems have "collect_waypoints tbl (Suc i) ids acc = Inr found" by simp
    from Cons.IH [OF this] None show ?thesis by (simp add: List.map_filter_simps)
  next
    case (Some w)
    with Cons.prems have "collect_waypoints tbl (Suc i) ids (acc @ [w]) = Inr found"
      by (simp add: Let_def split: if_splits)
    from Cons.IH [OF this] Some show ?thesis by (simp add: List.map_filter_simps)
  qed
qed

lemma route_details_id:
  "route_details row found = Some r \<Longrightarrow> route_id r = Route_ID row"
  by (auto simp: route_details_def Let_def split: if_splits)

lemma route_details_none: "route_details row found = None \<longleftrightarrow> length found < 2"
  by (simp add: route_details_def Let_def)

lemma routes_loop_ids:
  assumes "\<forall>row\<in>set rows. \<exists>found. collect_waypoints tbl 0 (Waypoint_IDs row) [] = Inr found"
  shows "\<exists>routes. routes_loop tbl rows = Inr routes
           \<and> map route_id routes
               = map Route_ID (filter (\<lambda>row. 2 \<le> length (usable_waypoints tbl row)) rows)"
  using assms
proof (induction rows)
  case Nil
  then show ?case by simp
next
  case (Cons row rows)
  from Cons.prems obtain found where
    f: "collect_waypoints tbl 0 (Waypoint_IDs row) [] = Inr found" by auto
  from collect_waypoints_usable [OF f] have u: "found = usable_waypoints tbl row"
    by (simp add: usable_waypoints_def)
  from Cons.IH Cons.prems obtain routes where
    r: "routes_loop tbl rows = Inr routes"
    and ids: "map route_id routes
               = map Route_ID (filter (\<lambda>row. 2 \<le> length (usable_waypoints tbl row)) rows)"
    by auto
  show ?case
  proof (cases "route_details row found")
    case None
    then have "length (usable_waypoints tbl row) < 2" using u by (simp add: route_details_none)
    with f r ids None show ?thesis by simp
  next
    case (Some x)
    then have "\<not> length found < 2" using route_details_none [of row found] by simp
    then have "2 \<le> length (usable_waypoints tbl row)" using u by simp
    with f r ids Some route_details_id [OF Some] show ?thesis by simp
  qed
qed

lemma analyses_loop_ids:
  "analyses_loop day v rngs k routes = Inr every \<Longrightarrow> map a_route_id every = map route_id routes"
proof (induction routes arbitrary: k every)
  case Nil
  then show ?case by simp
next
  case (Cons r rs)
  from Cons.prems obtain a rest where
    a: "analyze_single_route r day v (rngs k) = Inr a"
    and rest: "analyses_loop day v rngs (Suc k) rs = Inr rest"
    and e: "every = a # rest"
    by (auto split: sum.splits)
  from analyze_single_route_parts [OF a] obtain tf na where
    "overall_metrics r v (get_extended_forecast (segments r) day v (weather_rng (rngs k)))
       tf na = Inr a"
    by blast
  from overall_metrics_fields(1) [OF this] Cons.IH [OF rest] e show ?case by simp
qed

lemma evaluate_routes_ids:
  assumes "evaluate_routes routes day v rngs = Success ranked"
  shows "mset (map (\<lambda>x. a_route_id (analysis x)) ranked) = mset (map route_id routes)"
proof -
  from assms obtain every scored where
    e: "analyses_loop day v rngs 0 routes = Inr every"
    and s: "score_loop every every = Inr scored"
    and r: "ranked = sort_key (\<lambda>r. - route_score r) scored"
    by (auto simp: evaluate_routes_def score_routes_def split: sum.splits)
  have "mset (map (\<lambda>x. a_route_id (analysis x)) ranked)
          = image_mset (\<lambda>x. a_route_id (analysis x)) (mset scored)"
    by (simp add: r)
  also have "\<dots> = mset (map a_route_id (map analysis scored))"
    by (simp add: image_mset.compositionality comp_def)
  also have "\<dots> = mset (map route_id routes)"
    by (simp only: score_loop_analysis [OF s] analyses_loop_ids [OF e])
  finally show ?thesis .
qed

text \<open>
  Claim C9, as amended. For a known carrier, when the waypoint lookup of every matching
  row completes: the routes found are those of the rows with at least two usable
  waypoints, in the order of the table, so a row with fewer is left out and fails
  nothing; a ranking holds exactly the routes of those rows; and the request returns the
  failure "No routes found" exactly when every matching row has fewer than two usable
  waypoints, be it that no row matches the two ports or that every matching row is left
  out. There is no separate failure for the second case.
\<close>

theorem excluded_routes_no_routes_found:
  assumes "get_carrier_info (Some d) cid = Some ci"
    and "\<forall>row\<in>set (matching_routes d origin destination).
           \<exists>found. collect_waypoints (waypoints_tbl d) 0 (Waypoint_IDs row) [] = Inr found"
  shows "(\<exists>routes. find_routes_between_ports (Some d) origin destination = Inr routes
            \<and> map route_id routes
                = map Route_ID
                    (filter (\<lambda>row. 2 \<le> length (usable_waypoints (waypoints_tbl d) row))
                       (matching_routes d origin destination)))
       \<and> (analyze_routes (Some d) origin destination day cid rngs
             = Failed (NoRoutesFound origin destination)
            \<longleftrightarrow> (\<forall>row\<in>set (matching_routes d origin destination).
                    length (usable_waypoints (waypoints_tbl d) row) < 2))
       \<and> (\<forall>ranked. analyze_routes (Some d) origin destination day cid rngs = Success ranked
            \<longrightarrow> mset (map (\<lambda>x. a_route_id (analysis x)) ranked)
                  = mset (map Route_ID
                      (filter (\<lambda>row. 2 \<le> length (usable_waypoints (waypoints_tbl d) row))
                         (matching_routes d origin destination))))"
proof -
  let ?m = "matching_routes d origin destination"
  let ?u = "\<lambda>row. 2 \<le> length (usable_waypoints (waypoints_tbl d) row)"
  from routes_loop_ids [OF assms(2)] obtain routes where
    r: "find_routes_between_ports (Some d) origin destination = Inr routes"
    and ids: "map route_id routes = map Route_ID (filter ?u ?m)"
    by (auto simp: find_routes_between_ports_def)
  have e: "routes = [] \<longleftrightarrow> (\<forall>row\<in>set ?m. length (usable_waypoints (waypoints_tbl d) row) < 2)"
  proof -
    have "routes = [] \<longleftrightarrow> map route_id routes = []" by simp
    also have "\<dots> \<longleftrightarrow> filter ?u ?m = []" by (simp add: ids)
    also have "\<dots> \<longleftrightarrow> (\<forall>row\<in>set ?m. length (usable_waypoints (waypoints_tbl d) row) < 2)"
      by (auto simp: filter_empty_conv)
    finally show ?thesis .
  qed
  have o: "analyze_routes (Some d) origin destination day cid rngs
             = (if routes = [] then Failed (NoRoutesFound origin destination)
                else evaluate_routes routes day (avg_speed_knots ci) rngs)"
    by (simp add: analyze_routes_def assms(1) r)
  have n: "evaluate_routes routes day (avg_speed_knots ci) rngs
             \<noteq> Failed (NoRoutesFound origin destination)"
    by (simp add: evaluate_routes_def split: sum.splits)
  have 2: "analyze_routes (Some d) origin destination day cid rngs
             = Failed (NoRoutesFound origin destination)
            \<longleftrightarrow> (\<forall>row\<in>set ?m. length (usable_waypoints (waypoints_tbl d) row) < 2)"
    using o n e by auto
  have 3: "mset (map (\<lambda>x. a_route_id (analysis x)) ranked) = mset (map Route_ID (filter ?u ?m))"
    if "analyze_routes (Some d) origin destination day cid rngs = Success ranked" for ranked
  proof -
    from that o have "evaluate_routes routes day (avg_speed_knots ci) rngs = Success ranked"
      by (simp split: if_splits)
    from evaluate_routes_ids [OF this] ids show ?thesis by simp
  qed
  from r ids 2 3 show ?thesis by blast
qed

lemma collect_one_known:
  "collect_waypoints [new_york, london, cape_town] 0 [''WP_001'', ''WP_999''] []
     = Inr [new_york]"
  by (simp add: new_york_def london_def cape_town_def)

lemma route_details_one: "route_details row [a] = None"
  by (simp add: route_details_def)

lemma sample_tables:
  "sample_data rows
     = Some \<lparr>waypoints_tbl = [new_york, london, cape_town], routes_tbl = rows,
             carriers_tbl =
               [\<lparr>CARRIER_ID = ''CR_0001'', CARRIER_NAME = ''Ocean Express'',
                 SERVICE_TYPE = ''Container'', AVG_SPEED_KNOTS = 22\<rparr>,
                \<lparr>CARRIER_ID = ''CR_0003'', CARRIER_NAME = ''Sea Voyager'',
                 SERVICE_TYPE = ''Tanker'', AVG_SPEED_KNOTS = 20\<rparr>]\<rparr>"
  by (simp add: sample_data_def)

text \<open>
  A table with two routes from New York to London, the first of which names one known
  waypoint: only the second is found, and the request does not fail with "No routes found".
\<close>

theorem excluded_routes_no_routes_found_witness:
  "find_routes_between_ports
     (sample_data [ny_row ''R_005'' ''London'' (Some 3100) [''WP_001'', ''WP_999''],
                   ny_row ''R_003'' ''London'' (Some 3200) [''WP_001'', ''WP_003'']])
     ''New York'' ''London''
   = Inr [two_point_route (ny_row ''R_003'' ''London'' (Some 3200) [''WP_001'', ''WP_003''])
            new_york london]
   \<and> analyze_routes
       (sample_data [ny_row ''R_005'' ''London'' (Some 3100) [''WP_001'', ''WP_999''],
                     ny_row ''R_003'' ''London'' (Some 3200) [''WP_001'', ''WP_003'']])
       ''New York'' ''London'' 0 ''CR_0003'' calm_rngs
     \<noteq> Failed (NoRoutesFound ''New York'' ''London'')"
proof -
  let ?rows = "[ny_row ''R_005'' ''London'' (Some 3100) [''WP_001'', ''WP_999''],
                ny_row ''R_003'' ''London'' (Some 3200) [''WP_001'', ''WP_003'']]"
  let ?d = "\<lparr>waypoints_tbl = [new_york, london, cape_town], routes_tbl = ?rows,
             carriers_tbl =
               [\<lparr>CARRIER_ID = ''CR_0001'', CARRIER_NAME = ''Ocean Express'',
                 SERVICE_TYPE = ''Container'', AVG_SPEED_KNOTS = 22\<rparr>,
                \<lparr>CARRIER_ID = ''CR_0003'', CARRIER_NAME = ''Sea Voyager'',
                 SERVICE_TYPE = ''Tanker'', AVG_SPEED_KNOTS = 20\<rparr>]\<rparr>"
  have sd: "sample_data ?rows = Some ?d" by (rule sample_tables)
  have m: "matching_routes ?d ''New York'' ''London'' = ?rows"
    by (simp add: matching_routes_def ny_row_fields)
  have c: "get_carrier_info (Some ?d) ''CR_0003''
             = Some \<lparr>carrier_id = ''CR_0003'', carrier_name = ''Sea Voyager'',
                     avg_speed_knots = 20, service_type = ''Tanker''\<rparr>"
    using sea_voyager [of ?rows] by (simp only: sd)
  have h: "\<forall>row\<in>set (matching_routes ?d ''New York'' ''London'').
             \<exists>found. collect_waypoints (waypoints_tbl ?d) 0 (Waypoint_IDs row) [] = Inr found"
    unfolding m by (simp add: ny_row_fields collect_one_known collect_london
        del: collect_waypoints.simps)
  have u1: "length (usable_waypoints [new_york, london, cape_town]
              (ny_row ''R_005'' ''London'' (Some 3100) [''WP_001'', ''WP_999''])) = 1"
    by (simp add: usable_waypoints_def ny_row_fields List.map_filter_simps
        new_york_def london_def cape_town_def)
  have u2: "length (usable_waypoints [new_york, london, cape_town]
              (ny_row ''R_003'' ''London'' (Some 3200) [''WP_001'', ''WP_003''])) = 2"
    by (simp add: usable_waypoints_def ny_row_fields List.map_filter_simps
        new_york_def london_def cape_town_def)
  note t = excluded_routes_no_routes_found [OF c h, of 0 calm_rngs]
  have 1: "find_routes_between_ports (sample_data ?rows) ''New York'' ''London''
             = Inr [two_point_route (ny_row ''R_003'' ''London'' (Some 3200)
                      [''WP_001'', ''WP_003'']) new_york london]"
    by (simp add: find_routes_between_ports_def sample_data_def matching_routes_def
        ny_row_fields collect_london collect_one_known route_details_two route_details_one
        del: collect_waypoints.simps)
  from t have "analyze_routes (Some ?d) ''New York'' ''London'' 0 ''CR_0003'' calm_rngs
                 = Failed (NoRoutesFound ''New York'' ''London'')
               \<longleftrightarrow> (\<forall>row\<in>set (matching_routes ?d ''New York'' ''London'').
                       length (usable_waypoints (waypoints_tbl ?d) row) < 2)"
    by blast
  then have 2: "analyze_routes (Some ?d) ''New York'' ''London'' 0 ''CR_0003'' calm_rngs
                  \<noteq> Failed (NoRoutesFound ''New York'' ''London'')"
    unfolding m by (simp add: u1 u2)
  from 1 2 show ?thesis by (simp only: sd simp_thms)
qed

text \<open>
  The request on a table whose only matching route has one usable waypoint returns exactly
  what the request on a table without routes returns.
\<close>

theorem excluded_routes_same_failure_counterexample:
  "analyze_routes
     (sample_data [ny_row ''R_005'' ''London'' (Some 3100) [''WP_001'', ''WP_999'']])
     ''New York'' ''London'' 0 ''CR_0003'' calm_rngs
   = Failed (NoRoutesFound ''New York'' ''London'')
   \<and> analyze_routes (sample_data []) ''New York'' ''London'' 0 ''CR_0003'' calm_rngs
   = Failed (NoRoutesFound ''New York'' ''London'')"
proof -
  have 1: "find_routes_between_ports
             (sample_data [ny_row ''R_005'' ''London'' (Some 3100) [''WP_001'', ''WP_999'']])
             ''New York'' ''London'' = Inr []"
    by (simp add: find_routes_between_ports_def sample_data_def matching_routes_def
        ny_row_fields collect_one_known route_details_one del: collect_waypoints.simps)
  have 2: "find_routes_between_ports (sample_data []) ''New York'' ''London'' = Inr []"
    by (simp add: find_routes_between_ports_def sample_data_def matching_routes_def)
  show ?thesis by (simp add: analyze_routes_def sea_voyager 1 2)
qed

subsection \<open>The traffic simulator emits no alerts\<close>

text \<open>
  Claim C10. \<^verbatim>\<open>analyze_maritime_traffic\<close> returns exactly when the coordinate list is not
  empty (on the empty list the average latitude divides by zero), and whenever it returns,
  the \<open>alerts\<close> field of the analysis is the empty list, whatever the collision risk, the
  congestion level and the traffic density are.
\<close>

theorem analyze_maritime_traffic_alerts_empty:
  "(coords = [] \<longrightarrow> analyze_maritime_traffic sid coords day d = Inl ZeroDivisionError)
   \<and> (coords \<noteq> [] \<longrightarrow>
        (\<exists>r. analyze_maritime_traffic sid coords day d = Inr r \<and> alerts r = []))"
  by (simp add: analyze_maritime_traffic_def Let_def)

text \<open>An equatorial one-point segment with 70 vessels: congestion High, density 7, and
  still no alert.\<close>

theorem analyze_maritime_traffic_alerts_empty_witness:
  "\<exists>r. analyze_maritime_traffic ''R_001_seg_1'' [(0, 0)] 0
          \<lparr>vessel_delta = 20, port_proximity_draw = 1, speed_reduction_draw = 4\<rparr> = Inr r
       \<and> alerts r = []"
  using analyze_maritime_traffic_alerts_empty
    [of "[(0, 0)]" "''R_001_seg_1''" 0
        "\<lparr>vessel_delta = 20, port_proximity_draw = 1, speed_reduction_draw = 4\<rparr>"]
  by simp

end
